theory Spec2Isabelle
  imports Complex_Main "HOL-Library.Word"
begin

section \<open>Python values, exceptions and the remote embeddings endpoint\<close>

text \<open>
  The entry points of \<open>OpenAITextVectorizer\<close> receive dynamically typed arguments and
  test them with \<open>isinstance\<close>, so arguments are values of a small universe of Python
  objects. A \<open>float\<close> of an embedding is carried as a \<open>real\<close>: the code never computes
  with it.
\<close>

datatype pyval = PNone | PBool bool | PInt int | PStr string | PList "pyval list"

text \<open>
  Exceptions, each a subclass of Python's \<open>Exception\<close>. \<open>RetryError e\<close> is the
  exception of the retry decorator once it gives up, holding the last failure \<open>e\<close>;
  \<open>OtherError n\<close> stands for any other exception class (a transport or API error of
  the client library).
\<close>

datatype exn =
    TypeError string
  | ValueError string
  | KeyError string
  | IndexError
  | ImportError
  | RetryError exn
  | OtherError nat

type_synonym 'a result = "exn + 'a"

type_synonym dict = "(string \<times> pyval) list"

fun isinstance_str :: "pyval \<Rightarrow> bool" where
  "isinstance_str (PStr s) = True"
| "isinstance_str v = False"

fun isinstance_list :: "pyval \<Rightarrow> bool" where
  "isinstance_list (PList xs) = True"
| "isinstance_list v = False"

fun isinstance_TypeError :: "exn \<Rightarrow> bool" where
  "isinstance_TypeError (TypeError m) = True"
| "isinstance_TypeError e = False"

fun isinstance_KeyError_IndexError :: "exn \<Rightarrow> bool" where
  "isinstance_KeyError_IndexError (KeyError k) = True"
| "isinstance_KeyError_IndexError IndexError = True"
| "isinstance_KeyError_IndexError e = False"

text \<open>Truth value of an object, as \<open>if x\<close> and \<open>not x\<close> test it.\<close>

fun truthy :: "pyval \<Rightarrow> bool" where
  "truthy PNone = False"
| "truthy (PBool b) = b"
| "truthy (PInt i) = (i \<noteq> 0)"
| "truthy (PStr s) = (s \<noteq> [])"
| "truthy (PList xs) = (xs \<noteq> [])"

text \<open>\<open>d.pop(k)\<close> raises \<open>KeyError\<close> on a missing key; \<open>d.pop(k, default)\<close> does not.\<close>

definition dict_pop :: "dict \<Rightarrow> string \<Rightarrow> (pyval \<times> dict) result" where
  "dict_pop d k =
     (case map_of d k of
        None \<Rightarrow> Inl (KeyError k)
      | Some v \<Rightarrow> Inr (v, filter (\<lambda>kv. fst kv \<noteq> k) d))"

definition dict_pop_default :: "dict \<Rightarrow> string \<Rightarrow> pyval \<Rightarrow> pyval \<times> dict" where
  "dict_pop_default d k dflt =
     (case map_of d k of
        None \<Rightarrow> (dflt, d)
      | Some v \<Rightarrow> (v, filter (\<lambda>kv. fst kv \<noteq> k) d))"

text \<open>
  One call \<open>embeddings.create(input=batch, model=self.model, **kwargs)\<close>, and what it
  returns: the \<open>embedding\<close> of each item of \<open>response.data\<close>, in order.
\<close>

record request =
  input :: "pyval list"
  model_arg :: string
  extra :: dict

type_synonym response = "real list list"

text \<open>
  The remote endpoint behind a client object is not part of the program. It is a
  parameter: a function from the requests already sent and the request at hand to an
  exception or a response, so that it may answer differently from one attempt to the next.
\<close>

type_synonym endpoint = "request list \<Rightarrow> request \<Rightarrow> response result"

text \<open>What an entry point returns for one text: \<open>Union[List[float], bytes]\<close>.\<close>

datatype embedding = Floats "real list" | Buffer "8 word list"

fun len :: "embedding \<Rightarrow> nat" where
  "len (Floats xs) = length xs"
| "len (Buffer bs) = length bs"

text \<open>
  Observable effects, in the order they happen: the start of the n-th attempt of a
  retried call, a request sent to the remote endpoint, a pause between two attempts
  (\<open>Sleep h\<close>: a random delay of at most \<open>h\<close> seconds), and a read of an environment
  variable.
\<close>

datatype event = Attempt nat | Remote request | Sleep nat | Getenv string

fun requests :: "event list \<Rightarrow> request list" where
  "requests [] = []"
| "requests (Remote r # evs) = r # requests evs"
| "requests (ev # evs) = requests evs"

fun attempts :: "event list \<Rightarrow> nat list" where
  "attempts [] = []"
| "attempts (Attempt n # evs) = n # attempts evs"
| "attempts (ev # evs) = attempts evs"

fun sleeps :: "event list \<Rightarrow> nat list" where
  "sleeps [] = []"
| "sleeps (Sleep h # evs) = h # sleeps evs"
| "sleeps (ev # evs) = sleeps evs"

text \<open>
  The object: the fields \<open>model\<close>, \<open>dtype\<close> and \<open>dims\<close> of the base class and the two
  private clients. \<open>dims\<close> is \<open>None\<close> until the constructor assigns it.
\<close>

record vectorizer =
  model :: string
  dtype :: string
  dims :: "nat option"
  client :: endpoint
  aclient :: endpoint

record world =
  self :: vectorizer
  trace :: "event list"

text \<open>
  What the module takes from outside: whether \<open>openai\<close> can be imported, the process
  environment, the dtype check of the base class, the constructors of the two clients
  (called with \<open>api_key\<close> and the merged keyword arguments), and the buffer encoder.
\<close>

record env =
  openai_installed :: bool
  environ :: "string \<Rightarrow> string option"
  valid_dtype :: "string \<Rightarrow> bool"
  OpenAI :: "pyval \<Rightarrow> dict \<Rightarrow> endpoint result"
  AsyncOpenAI :: "pyval \<Rightarrow> dict \<Rightarrow> endpoint result"
  array_to_buffer :: "real list \<Rightarrow> pyval \<Rightarrow> (8 word list) result"

type_synonym 'a action = "world \<Rightarrow> 'a result \<times> world"

definition create :: "endpoint \<Rightarrow> request \<Rightarrow> response action" where
  "create ep req w = (ep (requests (trace w)) req, w\<lparr>trace := trace w @ [Remote req]\<rparr>)"

section \<open>Collaborators of the class that the module imports\<close>

text \<open>
  Modelled from the spec: \<open>BaseVectorizer._process_embedding\<close> is defined in the base
  class, outside this module. The spec has it convert the raw numeric response into the
  requested output form: the float sequence itself, or its serialisation to a byte buffer
  when \<open>as_buffer\<close> is set.
\<close>

definition process_embedding :: "env \<Rightarrow> real list \<Rightarrow> bool \<Rightarrow> pyval \<Rightarrow> embedding result" where
  "process_embedding E emb as_buffer dt =
     (if as_buffer then
        (case array_to_buffer E emb dt of Inl e \<Rightarrow> Inl e | Inr b \<Rightarrow> Inr (Buffer b))
      else Inr (Floats emb))"

text \<open>
  Modelled from the spec: the decorator \<open>deprecated_argument\<close> is defined in
  \<open>redisvl.utils.utils\<close>, outside this module. The spec calls it the deprecation-warning
  decorator: it warns and calls the function it wraps, whose result it returns. The
  wrapper it puts around the function is a plain function, also around a coroutine
  function: called, it returns what the call of the coroutine function returns, the
  coroutine object, whose body has not run yet.
\<close>

definition deprecated_argument :: "string \<Rightarrow> 'a action \<Rightarrow> 'a action" where
  "deprecated_argument argument func = func"

section \<open>Coroutines\<close>

text \<open>
  The call of a coroutine function (\<open>async def\<close>) runs nothing of its body: it returns
  a coroutine object. Awaiting the object runs the body, and an exception of the body is
  raised where the object is awaited.
\<close>

type_synonym 'a coroutine = "'a action"

definition async_def :: "'a action \<Rightarrow> ('a coroutine) action" where
  "async_def body w = (Inr body, w)"

definition await :: "('a coroutine) action \<Rightarrow> 'a action" where
  "await call w = (case call w of (Inl e, w') \<Rightarrow> (Inl e, w') | (Inr coro, w') \<Rightarrow> coro w')"

section \<open>The retry decorator\<close>

text \<open>
  \<open>@retry(wait=wait_random_exponential(min=1, max=60), stop=stop_after_attempt(6),
  retry=retry_if_not_exception_type(TypeError))\<close>: the wrapped function is called; a
  value is returned; an exception that the \<open>retry\<close> predicate rejects is raised as it
  is; otherwise, when the \<open>stop\<close> condition holds, \<open>RetryError\<close> is raised, and when it
  does not, the call sleeps and starts the next attempt. The decorator is the one of
  the \<open>tenacity\<close> library, with its default \<open>reraise=False\<close>. Around a plain function it
  runs this loop on the calls of the function; all four entry points reach it as plain
  functions, wrapped by \<open>deprecated_argument\<close>.
\<close>

definition stop_after_attempt :: "nat \<Rightarrow> nat \<Rightarrow> bool" where
  "stop_after_attempt max_attempt_number attempt_number \<longleftrightarrow> attempt_number \<ge> max_attempt_number"

definition retry_if_not_exception_type_TypeError :: "exn \<Rightarrow> bool" where
  "retry_if_not_exception_type_TypeError e \<longleftrightarrow> \<not> isinstance_TypeError e"

text \<open>
  The upper end of the interval the delay after attempt \<open>n\<close> is drawn from:
  \<open>2 ^ (n - 1)\<close> seconds, at least \<open>min\<close> and at most \<open>max\<close>.
\<close>

definition wait_random_exponential :: "nat \<Rightarrow> nat \<Rightarrow> nat \<Rightarrow> nat" where
  "wait_random_exponential mn mx attempt_number = max mn (min (2 ^ (attempt_number - 1)) mx)"

function retrying ::
  "nat \<Rightarrow> (exn \<Rightarrow> bool) \<Rightarrow> (nat \<Rightarrow> nat) \<Rightarrow> nat \<Rightarrow> 'a action \<Rightarrow> 'a action" where
  "retrying stop_n retry_on wait attempt_number fn w =
     (case fn (w\<lparr>trace := trace w @ [Attempt attempt_number]\<rparr>) of
        (Inr v, w') \<Rightarrow> (Inr v, w')
      | (Inl e, w') \<Rightarrow>
          if \<not> retry_on e then (Inl e, w')
          else if stop_after_attempt stop_n attempt_number then (Inl (RetryError e), w')
          else retrying stop_n retry_on wait (Suc attempt_number) fn
                 (w'\<lparr>trace := trace w' @ [Sleep (wait attempt_number)]\<rparr>))"
  by pat_completeness auto
termination
  by (relation "measure (\<lambda>(stop_n, retry_on, wait, attempt_number, fn, w). stop_n - attempt_number)")
     (auto simp: stop_after_attempt_def)

definition retry :: "'a action \<Rightarrow> 'a action" where
  "retry fn =
     retrying 6 retry_if_not_exception_type_TypeError (wait_random_exponential 1 60) 1 fn"

section \<open>Batching\<close>

text \<open>\<open>range(0, stop, step)\<close>: a zero step raises, a negative step from 0 gives nothing.\<close>

definition range0 :: "nat \<Rightarrow> int \<Rightarrow> nat list result" where
  "range0 stop step =
     (if step = 0 then Inl (ValueError ''range() arg 3 must not be zero'')
      else if step < 0 then Inr []
      else Inr (map (\<lambda>k. k * nat step) [0 ..< (stop + nat step - 1) div nat step]))"

text \<open>A list comprehension \<open>[f(x) for x in xs]\<close>: the first exception ends it.\<close>

fun map_result :: "('a \<Rightarrow> 'b result) \<Rightarrow> 'a list \<Rightarrow> 'b list result" where
  "map_result f [] = Inr []"
| "map_result f (x # xs) =
     (case f x of
        Inl e \<Rightarrow> Inl e
      | Inr y \<Rightarrow> (case map_result f xs of Inl e \<Rightarrow> Inl e | Inr ys \<Rightarrow> Inr (y # ys)))"

type_synonym callable = "pyval \<Rightarrow> pyval result"

text \<open>
  Modelled from the spec: \<open>BaseVectorizer.batchify\<close> is a generator of the base class,
  outside this module. The spec has it split a long list into consecutive batches of at
  most \<open>batch_size\<close> elements, which are the slices \<open>seq[pos : pos + sz]\<close> for \<open>pos\<close> in
  \<open>range(0, len(seq), sz)\<close>, each element passed through \<open>preprocess\<close> when one is
  given. The generator is the list of what its steps yield or raise; its consumer stops at
  the first exception.
\<close>

definition batchify :: "pyval list \<Rightarrow> int \<Rightarrow> callable option \<Rightarrow> (pyval list result) list" where
  "batchify seq sz preprocess =
     (case range0 (length seq) sz of
        Inl e \<Rightarrow> [Inl e]
      | Inr ps \<Rightarrow>
          map (\<lambda>pos.
                 (case preprocess of
                    Some f \<Rightarrow> map_result f (take (nat sz) (drop pos seq))
                  | None \<Rightarrow> Inr (take (nat sz) (drop pos seq)))) ps)"

section \<open>The four entry points\<close>

fun items :: "pyval \<Rightarrow> pyval list" where
  "items (PList xs) = xs"
| "items v = []"

text \<open>
  The loop of \<open>embed_many\<close>: one request per batch, the processed embeddings of its
  response appended to \<open>embeddings\<close>.
\<close>

fun embed_many_loop ::
  "env \<Rightarrow> bool \<Rightarrow> pyval \<Rightarrow> dict \<Rightarrow> (pyval list result) list \<Rightarrow> embedding list
   \<Rightarrow> embedding list action" where
  "embed_many_loop E as_buffer dt kwargs [] embeddings w = (Inr embeddings, w)"
| "embed_many_loop E as_buffer dt kwargs (Inl e # batches) embeddings w = (Inl e, w)"
| "embed_many_loop E as_buffer dt kwargs (Inr batch # batches) embeddings w =
     (case create (client (self w))
             \<lparr>input = batch, model_arg = model (self w), extra = kwargs\<rparr> w of
        (Inl e, w') \<Rightarrow> (Inl e, w')
      | (Inr data, w') \<Rightarrow>
          (case map_result (\<lambda>r. process_embedding E r as_buffer dt) data of
             Inl e \<Rightarrow> (Inl e, w')
           | Inr es \<Rightarrow> embed_many_loop E as_buffer dt kwargs batches (embeddings @ es) w'))"

definition embed_many_fn ::
  "env \<Rightarrow> pyval \<Rightarrow> callable option \<Rightarrow> int \<Rightarrow> bool \<Rightarrow> dict \<Rightarrow> embedding list action" where
  "embed_many_fn E texts preprocess batch_size as_buffer kwargs w =
     (if \<not> isinstance_list texts then
        (Inl (TypeError ''Must pass in a list of str values to embed.''), w)
      else if length (items texts) > 0 \<and> \<not> isinstance_str (items texts ! 0) then
        (Inl (TypeError ''Must pass in a list of str values to embed.''), w)
      else
        (case dict_pop_default kwargs ''dtype'' (PStr (dtype (self w))) of
           (dt, kwargs') \<Rightarrow>
             embed_many_loop E as_buffer dt kwargs'
               (batchify (items texts) batch_size preprocess) [] w))"

definition embed_many ::
  "env \<Rightarrow> pyval \<Rightarrow> callable option \<Rightarrow> int \<Rightarrow> bool \<Rightarrow> dict \<Rightarrow> embedding list action" where
  "embed_many E texts preprocess batch_size as_buffer kwargs =
     retry (deprecated_argument ''dtype''
       (embed_many_fn E texts preprocess batch_size as_buffer kwargs))"

definition embed_fn ::
  "env \<Rightarrow> pyval \<Rightarrow> callable option \<Rightarrow> bool \<Rightarrow> dict \<Rightarrow> embedding action" where
  "embed_fn E text preprocess as_buffer kwargs w =
     (if \<not> isinstance_str text then (Inl (TypeError ''Must pass in a str value to embed.''), w)
      else
        (case (case preprocess of Some f \<Rightarrow> f text | None \<Rightarrow> Inr text) of
           Inl e \<Rightarrow> (Inl e, w)
         | Inr text' \<Rightarrow>
             (case dict_pop_default kwargs ''dtype'' (PStr (dtype (self w))) of
                (dt, kwargs') \<Rightarrow>
                  (case create (client (self w))
                          \<lparr>input = [text'], model_arg = model (self w), extra = kwargs'\<rparr> w of
                     (Inl e, w') \<Rightarrow> (Inl e, w')
                   | (Inr data, w') \<Rightarrow>
                       (case data of
                          [] \<Rightarrow> (Inl IndexError, w')
                        | r # rs \<Rightarrow> (process_embedding E r as_buffer dt, w'))))))"

definition embed ::
  "env \<Rightarrow> pyval \<Rightarrow> callable option \<Rightarrow> bool \<Rightarrow> dict \<Rightarrow> embedding action" where
  "embed E text preprocess as_buffer kwargs =
     retry (deprecated_argument ''dtype'' (embed_fn E text preprocess as_buffer kwargs))"

text \<open>
  The asynchronous twins, written out from their own source text. Awaiting the request
  is the request: the model has one thread of control, so a suspended call resumes with
  the response and nothing happens in between. The decorators are those of the
  synchronous functions, stacked over an \<open>async def\<close>: what the retry loop calls is the
  plain wrapper of \<open>deprecated_argument\<close>, whose call returns the coroutine object at once,
  so the loop ends with its first attempt and the body runs when the caller awaits that
  object, outside the loop. \<open>aembed\<close> and \<open>aembed_many\<close> stand for the awaited calls
  \<open>await vectorizer.aembed(...)\<close> and \<open>await vectorizer.aembed_many(...)\<close>.
\<close>

fun aembed_many_loop ::
  "env \<Rightarrow> bool \<Rightarrow> pyval \<Rightarrow> dict \<Rightarrow> (pyval list result) list \<Rightarrow> embedding list
   \<Rightarrow> embedding list action" where
  "aembed_many_loop E as_buffer dt kwargs [] embeddings w = (Inr embeddings, w)"
| "aembed_many_loop E as_buffer dt kwargs (Inl e # batches) embeddings w = (Inl e, w)"
| "aembed_many_loop E as_buffer dt kwargs (Inr batch # batches) embeddings w =
     (case create (aclient (self w))
             \<lparr>input = batch, model_arg = model (self w), extra = kwargs\<rparr> w of
        (Inl e, w') \<Rightarrow> (Inl e, w')
      | (Inr data, w') \<Rightarrow>
          (case map_result (\<lambda>r. process_embedding E r as_buffer dt) data of
             Inl e \<Rightarrow> (Inl e, w')
           | Inr es \<Rightarrow> aembed_many_loop E as_buffer dt kwargs batches (embeddings @ es) w'))"

definition aembed_many_fn ::
  "env \<Rightarrow> pyval \<Rightarrow> callable option \<Rightarrow> int \<Rightarrow> bool \<Rightarrow> dict \<Rightarrow> embedding list action" where
  "aembed_many_fn E texts preprocess batch_size as_buffer kwargs w =
     (if \<not> isinstance_list texts then
        (Inl (TypeError ''Must pass in a list of str values to embed.''), w)
      else if length (items texts) > 0 \<and> \<not> isinstance_str (items texts ! 0) then
        (Inl (TypeError ''Must pass in a list of str values to embed.''), w)
      else
        (case dict_pop_default kwargs ''dtype'' (PStr (dtype (self w))) of
           (dt, kwargs') \<Rightarrow>
             aembed_many_loop E as_buffer dt kwargs'
               (batchify (items texts) batch_size preprocess) [] w))"

definition aembed_many ::
  "env \<Rightarrow> pyval \<Rightarrow> callable option \<Rightarrow> int \<Rightarrow> bool \<Rightarrow> dict \<Rightarrow> embedding list action" where
  "aembed_many E texts preprocess batch_size as_buffer kwargs =
     await (retry (deprecated_argument ''dtype''
       (async_def (aembed_many_fn E texts preprocess batch_size as_buffer kwargs))))"

definition aembed_fn ::
  "env \<Rightarrow> pyval \<Rightarrow> callable option \<Rightarrow> bool \<Rightarrow> dict \<Rightarrow> embedding action" where
  "aembed_fn E text preprocess as_buffer kwargs w =
     (if \<not> isinstance_str text then (Inl (TypeError ''Must pass in a str value to embed.''), w)
      else
        (case (case preprocess of Some f \<Rightarrow> f text | None \<Rightarrow> Inr text) of
           Inl e \<Rightarrow> (Inl e, w)
         | Inr text' \<Rightarrow>
             (case dict_pop_default kwargs ''dtype'' (PStr (dtype (self w))) of
                (dt, kwargs') \<Rightarrow>
                  (case create (aclient (self w))
                          \<lparr>input = [text'], model_arg = model (self w), extra = kwargs'\<rparr> w of
                     (Inl e, w') \<Rightarrow> (Inl e, w')
                   | (Inr data, w') \<Rightarrow>
                       (case data of
                          [] \<Rightarrow> (Inl IndexError, w')
                        | r # rs \<Rightarrow> (process_embedding E r as_buffer dt, w'))))))"

definition aembed ::
  "env \<Rightarrow> pyval \<Rightarrow> callable option \<Rightarrow> bool \<Rightarrow> dict \<Rightarrow> embedding action" where
  "aembed E text preprocess as_buffer kwargs =
     await (retry (deprecated_argument ''dtype''
       (async_def (aembed_fn E text preprocess as_buffer kwargs))))"

section \<open>Construction\<close>

text \<open>
  \<open>_initialize_clients\<close>: the import, the API key (popped from a non-empty \<open>api_config\<close>,
  read from the environment otherwise), and the two clients. A keyword passed twice to a
  constructor (\<open>api_key\<close>, or a key of both \<open>api_config\<close> and \<open>kwargs\<close>) is a \<open>TypeError\<close>
  of the call.
\<close>

definition call_client ::
  "(pyval \<Rightarrow> dict \<Rightarrow> endpoint result) \<Rightarrow> pyval \<Rightarrow> dict \<Rightarrow> dict \<Rightarrow> endpoint result" where
  "call_client ctor api_key api_config kwargs =
     (if distinct (''api_key'' # map fst (api_config @ kwargs))
      then ctor api_key (api_config @ kwargs)
      else Inl (TypeError ''got multiple values for keyword argument''))"

definition initialize_clients ::
  "env \<Rightarrow> dict option \<Rightarrow> dict \<Rightarrow> event list \<Rightarrow> (endpoint \<times> endpoint) result \<times> event list" where
  "initialize_clients E api_config kwargs tr =
     (let api_config = (case api_config of None \<Rightarrow> [] | Some d \<Rightarrow> d) in
      if \<not> openai_installed E then (Inl ImportError, tr)
      else
        (case (if api_config \<noteq> []
               then (case dict_pop api_config ''api_key'' of
                       Inl e \<Rightarrow> (Inl e, tr)
                     | Inr (v, d) \<Rightarrow> (Inr (v, d), tr))
               else (Inr (case environ E ''OPENAI_API_KEY'' of
                            None \<Rightarrow> PNone | Some s \<Rightarrow> PStr s, api_config),
                     tr @ [Getenv ''OPENAI_API_KEY''])) of
           (Inl e, tr') \<Rightarrow> (Inl e, tr')
         | (Inr (api_key, api_config'), tr') \<Rightarrow>
             if \<not> truthy api_key then (Inl (ValueError ''OpenAI API key is required.''), tr')
             else
               (case call_client (OpenAI E) api_key api_config' kwargs of
                  Inl e \<Rightarrow> (Inl e, tr')
                | Inr c \<Rightarrow>
                    (case call_client (AsyncOpenAI E) api_key api_config' kwargs of
                       Inl e \<Rightarrow> (Inl e, tr')
                     | Inr ac \<Rightarrow> (Inr (c, ac), tr')))))"

text \<open>
  \<open>_set_model_dims\<close>: the probe. Every exception of the model is an \<open>Exception\<close>, so the
  second handler takes whatever the first does not.
\<close>

definition set_model_dims :: "env \<Rightarrow> nat action" where
  "set_model_dims E w =
     (case embed E (PStr ''dimension check'') None False [] w of
        (Inl e, w') \<Rightarrow>
          if isinstance_KeyError_IndexError e
          then (Inl (ValueError ''Unexpected response from the OpenAI API''), w')
          else (Inl (ValueError ''Error setting embedding model dimensions''), w')
      | (Inr embedding, w') \<Rightarrow> (Inr (len embedding), w'))"

text \<open>
  \<open>__init__\<close>: the base class first (it rejects an invalid \<open>dtype\<close> with a
  \<open>ValueError\<close> and leaves \<open>dims\<close> at \<open>None\<close>), then the clients, then \<open>dims\<close>.
\<close>

definition init ::
  "env \<Rightarrow> string \<Rightarrow> dict option \<Rightarrow> string \<Rightarrow> dict \<Rightarrow> event list
   \<Rightarrow> vectorizer result \<times> event list" where
  "init E mdl api_config dt kwargs tr =
     (if \<not> valid_dtype E dt then (Inl (ValueError ''Invalid data type''), tr)
      else
        (case initialize_clients E api_config kwargs tr of
           (Inl e, tr') \<Rightarrow> (Inl e, tr')
         | (Inr (c, ac), tr') \<Rightarrow>
             (case set_model_dims E
                     \<lparr>self = \<lparr>model = mdl, dtype = dt, dims = None, client = c, aclient = ac\<rparr>,
                      trace = tr'\<rparr> of
                (Inl e, w') \<Rightarrow> (Inl e, trace w')
              | (Inr n, w') \<Rightarrow> (Inr ((self w')\<lparr>dims := Some n\<rparr>), trace w'))))"

section \<open>Batches, in the spec's words\<close>

text \<open>
  The spec's own account of batching, to compare \<open>batchify\<close> with: a list is cut into
  consecutive batches of at most \<open>n\<close> elements, each but the last of exactly \<open>n\<close>.
\<close>

function consecutive_batches :: "nat \<Rightarrow> 'a list \<Rightarrow> 'a list list" where
  "consecutive_batches n xs =
     (if n = 0 \<or> xs = [] then [] else take n xs # consecutive_batches n (drop n xs))"
  by pat_completeness auto
termination
  by (relation "measure (\<lambda>(n, xs). length xs)") auto

section \<open>A concrete setting\<close>

text \<open>
  An endpoint that embeds a text into three numbers, the first its length, answers a
  batch of strings with one vector per string, in order, and rejects any other batch with
  an API error; an environment with the library installed and a key set; and an object
  as the constructor leaves it there.
\<close>

fun example_vector :: "pyval \<Rightarrow> real list" where
  "example_vector (PStr s) = [real (length s), 0, 0]"
| "example_vector v = [0, 0, 0]"

definition example_endpoint :: endpoint where
  "example_endpoint sent req =
     (if list_all isinstance_str (input req) then Inr (map example_vector (input req))
      else Inl (OtherError 400))"

definition failing_endpoint :: endpoint where
  "failing_endpoint sent req = Inl (OtherError 503)"

definition example_env :: env where
  "example_env =
     \<lparr>openai_installed = True,
      environ = (\<lambda>k. if k = ''OPENAI_API_KEY'' then Some ''sk-test'' else None),
      valid_dtype = (\<lambda>d. d = ''float32'' \<or> d = ''float64''),
      OpenAI = (\<lambda>api_key cfg. Inr example_endpoint),
      AsyncOpenAI = (\<lambda>api_key cfg. Inr example_endpoint),
      array_to_buffer = (\<lambda>xs dt. Inr (concat (map (\<lambda>x. [0, 0, 0, 0]) xs)))\<rparr>"

definition failing_env :: env where
  "failing_env =
     example_env\<lparr>OpenAI := (\<lambda>api_key cfg. Inr failing_endpoint),
                  AsyncOpenAI := (\<lambda>api_key cfg. Inr failing_endpoint)\<rparr>"

definition example_vectorizer :: vectorizer where
  "example_vectorizer =
     \<lparr>model = ''text-embedding-ada-002'', dtype = ''float32'', dims = Some 3,
      client = example_endpoint, aclient = example_endpoint\<rparr>"

definition example_world :: world where
  "example_world = \<lparr>self = example_vectorizer, trace = []\<rparr>"

text \<open>An endpoint that rejects the first request it ever gets and answers all later ones.\<close>

definition flaky_endpoint :: endpoint where
  "flaky_endpoint sent req =
     (if sent = [] then Inl (OtherError 503) else example_endpoint sent req)"

definition flaky_world :: world where
  "flaky_world =
     \<lparr>self = example_vectorizer\<lparr>client := flaky_endpoint, aclient := flaky_endpoint\<rparr>,
      trace = []\<rparr>"

definition failing_world :: world where
  "failing_world =
     \<lparr>self = example_vectorizer\<lparr>client := failing_endpoint, aclient := failing_endpoint\<rparr>,
      trace = []\<rparr>"

section \<open>Traces\<close>

declare retrying.simps [simp del]

lemma requests_append: "requests (xs @ ys) = requests xs @ requests ys"
  by (induction xs rule: requests.induct) simp_all

lemma attempts_append: "attempts (xs @ ys) = attempts xs @ attempts ys"
  by (induction xs rule: attempts.induct) simp_all

lemma sleeps_append: "sleeps (xs @ ys) = sleeps xs @ sleeps ys"
  by (induction xs rule: sleeps.induct) simp_all

section \<open>The retry loop\<close>

lemma retrying_value:
  "fn (w\<lparr>trace := trace w @ [Attempt a]\<rparr>) = (Inr v, w') \<Longrightarrow>
   retrying n retry_on wait a fn w = (Inr v, w')"
  by (simp add: retrying.simps)

lemma retrying_not_retried:
  "fn (w\<lparr>trace := trace w @ [Attempt a]\<rparr>) = (Inl e, w') \<Longrightarrow> \<not> retry_on e \<Longrightarrow>
   retrying n retry_on wait a fn w = (Inl e, w')"
  by (simp add: retrying.simps)

lemma retrying_stop:
  "fn (w\<lparr>trace := trace w @ [Attempt a]\<rparr>) = (Inl e, w') \<Longrightarrow> retry_on e \<Longrightarrow> n \<le> a \<Longrightarrow>
   retrying n retry_on wait a fn w = (Inl (RetryError e), w')"
  by (simp add: retrying.simps stop_after_attempt_def)

lemma retrying_again:
  "fn (w\<lparr>trace := trace w @ [Attempt a]\<rparr>) = (Inl e, w') \<Longrightarrow> retry_on e \<Longrightarrow> a < n \<Longrightarrow>
   retrying n retry_on wait a fn w =
     retrying n retry_on wait (Suc a) fn (w'\<lparr>trace := trace w' @ [Sleep (wait a)]\<rparr>)"
  by (simp add: retrying.simps stop_after_attempt_def)

text \<open>What one round of the loop does, by cases on the outcome of the attempt.\<close>

lemma retrying_cases:
  obtains (final) r1 w1 where "fn (w\<lparr>trace := trace w @ [Attempt a]\<rparr>) = (r1, w1)"
      and "retrying n retry_on wait a fn w = (r1, w1)"
      and "\<forall>e. r1 = Inl e \<longrightarrow> \<not> retry_on e"
    | (stop) e w1 where "fn (w\<lparr>trace := trace w @ [Attempt a]\<rparr>) = (Inl e, w1)"
      and "retry_on e" and "n \<le> a"
      and "retrying n retry_on wait a fn w = (Inl (RetryError e), w1)"
    | (again) e w1 where "fn (w\<lparr>trace := trace w @ [Attempt a]\<rparr>) = (Inl e, w1)"
      and "retry_on e" and "a < n"
      and "retrying n retry_on wait a fn w =
           retrying n retry_on wait (Suc a) fn (w1\<lparr>trace := trace w1 @ [Sleep (wait a)]\<rparr>)"
proof -
  obtain r1 w1 where b: "fn (w\<lparr>trace := trace w @ [Attempt a]\<rparr>) = (r1, w1)"
    by (cases "fn (w\<lparr>trace := trace w @ [Attempt a]\<rparr>)")
  show thesis
  proof (cases r1)
    case (Inr v)
    then show ?thesis using b retrying_value [of fn w a v w1 n retry_on wait] final by simp
  next
    case (Inl e)
    show ?thesis
    proof (cases "retry_on e")
      case False
      then show ?thesis
        using b Inl retrying_not_retried [of fn w a e w1 retry_on n wait] final by simp
    next
      case True
      show ?thesis
      proof (cases "a < n")
        case True
        with \<open>retry_on e\<close> show ?thesis
          using b Inl retrying_again [of fn w a e w1 retry_on n wait] again by simp
      next
        case False
        with \<open>retry_on e\<close> show ?thesis
          using b Inl retrying_stop [of fn w a e w1 retry_on n wait] stop by simp
      qed
    qed
  qed
qed

lemma retrying_frame:
  assumes frame: "\<And>w. self (snd (fn w)) = self w"
  shows "self (snd (retrying n retry_on wait a fn w)) = self w"
proof (induction "n - a" arbitrary: a w)
  case 0
  show ?case
  proof (cases rule: retrying_cases [of fn w a n retry_on wait])
    case (final r1 w1)
    then show ?thesis using frame [of "w\<lparr>trace := trace w @ [Attempt a]\<rparr>"] by simp
  next
    case (stop e w1)
    then show ?thesis using frame [of "w\<lparr>trace := trace w @ [Attempt a]\<rparr>"] by simp
  next
    case (again e w1)
    then show ?thesis using 0 by simp
  qed
next
  case (Suc k)
  show ?case
  proof (cases rule: retrying_cases [of fn w a n retry_on wait])
    case (final r1 w1)
    then show ?thesis using frame [of "w\<lparr>trace := trace w @ [Attempt a]\<rparr>"] by simp
  next
    case (stop e w1)
    then show ?thesis using frame [of "w\<lparr>trace := trace w @ [Attempt a]\<rparr>"] by simp
  next
    case (again e w1)
    have "k = n - Suc a" using Suc.hyps(2) by simp
    from Suc.hyps(1) [OF this, of "w1\<lparr>trace := trace w1 @ [Sleep (wait a)]\<rparr>"] again
    show ?thesis using frame [of "w\<lparr>trace := trace w @ [Attempt a]\<rparr>"] by simp
  qed
qed

lemma retrying_gives_up:
  assumes frame: "\<And>w. self (snd (fn w)) = self w
        \<and> attempts (trace (snd (fn w))) = attempts (trace w)
        \<and> sleeps (trace (snd (fn w))) = sleeps (trace w)"
    and fails: "\<And>w. self w = s \<Longrightarrow> \<exists>e. fst (fn w) = Inl e \<and> retry_on e"
  shows "self w = s \<Longrightarrow> a \<le> n \<Longrightarrow>
    \<exists>e w'. retrying n retry_on wait a fn w = (Inl (RetryError e), w') \<and> retry_on e
      \<and> attempts (trace w') = attempts (trace w) @ [a ..< Suc n]
      \<and> sleeps (trace w') = sleeps (trace w) @ map wait [a ..< n]"
proof (induction "n - a" arbitrary: a w)
  case 0
  let ?w0 = "w\<lparr>trace := trace w @ [Attempt a]\<rparr>"
  from 0 have an: "a = n" by simp
  from fails [of ?w0] "0.prems"(1) obtain e where e: "fst (fn ?w0) = Inl e" "retry_on e" by auto
  then have b: "fn ?w0 = (Inl e, snd (fn ?w0))" by (simp add: prod_eq_iff)
  have "retrying n retry_on wait a fn w = (Inl (RetryError e), snd (fn ?w0))"
    using retrying_stop [of fn w a e "snd (fn ?w0)" retry_on n wait] b e(2) an by simp
  then show ?case using e(2) frame [of ?w0] an by (simp add: attempts_append sleeps_append)
next
  case (Suc k)
  let ?w0 = "w\<lparr>trace := trace w @ [Attempt a]\<rparr>"
  from Suc.hyps(2) have k: "k = n - Suc a" and lt: "a < n" by simp_all
  from fails [of ?w0] Suc.prems(1) obtain e where e: "fst (fn ?w0) = Inl e" "retry_on e" by auto
  then have b: "fn ?w0 = (Inl e, snd (fn ?w0))" by (simp add: prod_eq_iff)
  let ?w2 = "(snd (fn ?w0))\<lparr>trace := trace (snd (fn ?w0)) @ [Sleep (wait a)]\<rparr>"
  have step: "retrying n retry_on wait a fn w = retrying n retry_on wait (Suc a) fn ?w2"
    using retrying_again [of fn w a e "snd (fn ?w0)" retry_on n wait] b e(2) lt by simp
  have s2: "self ?w2 = s" using frame [of ?w0] Suc.prems(1) by simp
  from Suc.hyps(1) [OF k s2] lt
  obtain e' w' where r: "retrying n retry_on wait (Suc a) fn ?w2 = (Inl (RetryError e'), w')"
    and e': "retry_on e'"
    and at': "attempts (trace w') = attempts (trace ?w2) @ [Suc a ..< Suc n]"
    and sl': "sleeps (trace w') = sleeps (trace ?w2) @ map wait [Suc a ..< n]" by auto
  have "[a ..< Suc n] = a # [Suc a ..< Suc n]" using lt by (simp add: upt_conv_Cons del: upt_Suc)
  moreover have "[a ..< n] = a # [Suc a ..< n]" using lt by (simp add: upt_conv_Cons)
  ultimately show ?case using step r e' at' sl' frame [of ?w0]
    by (simp add: attempts_append sleeps_append del: upt_Suc)
qed

lemma retrying_attempts_bounded:
  assumes frame: "\<And>w. attempts (trace (snd (fn w))) = attempts (trace w)"
  shows "a \<le> n \<Longrightarrow>
    \<exists>k. a \<le> k \<and> k \<le> n \<and>
      attempts (trace (snd (retrying n retry_on wait a fn w))) = attempts (trace w) @ [a ..< Suc k]"
proof (induction "n - a" arbitrary: a w)
  case 0
  let ?w0 = "w\<lparr>trace := trace w @ [Attempt a]\<rparr>"
  have at: "attempts (trace (snd (fn ?w0))) = attempts (trace w) @ [a]"
    using frame [of ?w0] by (simp add: attempts_append)
  show ?case
  proof (cases rule: retrying_cases [of fn w a n retry_on wait])
    case (final r1 w1)
    then show ?thesis using at 0 by (intro exI [of _ a]) simp
  next
    case (stop e w1)
    then show ?thesis using at 0 by (intro exI [of _ a]) simp
  next
    case (again e w1)
    then show ?thesis using 0 by simp
  qed
next
  case (Suc k)
  let ?w0 = "w\<lparr>trace := trace w @ [Attempt a]\<rparr>"
  from Suc.hyps(2) have k: "k = n - Suc a" and lt: "a < n" by simp_all
  have at: "attempts (trace (snd (fn ?w0))) = attempts (trace w) @ [a]"
    using frame [of ?w0] by (simp add: attempts_append)
  show ?case
  proof (cases rule: retrying_cases [of fn w a n retry_on wait])
    case (final r1 w1)
    then show ?thesis using at lt by (intro exI [of _ a]) simp
  next
    case (stop e w1)
    then show ?thesis using lt by simp
  next
    case (again e w1)
    let ?w2 = "w1\<lparr>trace := trace w1 @ [Sleep (wait a)]\<rparr>"
    from Suc.hyps(1) [OF k, of ?w2] lt
    obtain j where j: "Suc a \<le> j" "j \<le> n"
      "attempts (trace (snd (retrying n retry_on wait (Suc a) fn ?w2)))
         = attempts (trace ?w2) @ [Suc a ..< Suc j]" by auto
    have "[a ..< Suc j] = a # [Suc a ..< Suc j]" using j(1) by (simp add: upt_conv_Cons del: upt_Suc)
    then show ?thesis using j at again
      by (intro exI [of _ j]) (simp add: attempts_append del: upt_Suc)
  qed
qed

text \<open>A value that the loop returns is the value of one run of the function.\<close>

lemma retrying_Inr:
  assumes frame: "\<And>w. self (snd (fn w)) = self w"
  shows "retrying n retry_on wait a fn w = (Inr v, w') \<Longrightarrow>
    \<exists>w1. self w1 = self w \<and> fn w1 = (Inr v, w')"
proof (induction "n - a" arbitrary: a w)
  case 0
  show ?case
  proof (cases rule: retrying_cases [of fn w a n retry_on wait])
    case (final r1 w1)
    then show ?thesis using "0.prems" by (intro exI [of _ "w\<lparr>trace := trace w @ [Attempt a]\<rparr>"]) simp
  next
    case (stop e w1)
    then show ?thesis using "0.prems" by simp
  next
    case (again e w1)
    then show ?thesis using 0 by simp
  qed
next
  case (Suc k)
  show ?case
  proof (cases rule: retrying_cases [of fn w a n retry_on wait])
    case (final r1 w1)
    then show ?thesis using Suc.prems by (intro exI [of _ "w\<lparr>trace := trace w @ [Attempt a]\<rparr>"]) simp
  next
    case (stop e w1)
    then show ?thesis using Suc.prems by simp
  next
    case (again e w1)
    let ?w2 = "w1\<lparr>trace := trace w1 @ [Sleep (wait a)]\<rparr>"
    have k: "k = n - Suc a" using Suc.hyps(2) by simp
    have "retrying n retry_on wait (Suc a) fn ?w2 = (Inr v, w')" using again Suc.prems by simp
    from Suc.hyps(1) [OF k this] obtain w3 where "self w3 = self ?w2" "fn w3 = (Inr v, w')" by auto
    moreover have "self w1 = self w"
      using frame [of "w\<lparr>trace := trace w @ [Attempt a]\<rparr>"] again(1) by simp
    ultimately show ?thesis by (intro exI [of _ w3]) simp
  qed
qed

text \<open>
  An exception that the loop raises and that the \<open>retry\<close> predicate rejects is the
  exception of one run of the function, in the world that run left.
\<close>

lemma retrying_Inl:
  assumes frame: "\<And>w. self (snd (fn w)) = self w"
    and e: "\<not> retry_on e" "\<forall>e0. e \<noteq> RetryError e0"
  shows "retrying n retry_on wait a fn w = (Inl e, w') \<Longrightarrow>
    \<exists>w1. self w1 = self w \<and> fn w1 = (Inl e, w')"
proof (induction "n - a" arbitrary: a w)
  case 0
  show ?case
  proof (cases rule: retrying_cases [of fn w a n retry_on wait])
    case (final r1 w1)
    then show ?thesis using "0.prems" by (intro exI [of _ "w\<lparr>trace := trace w @ [Attempt a]\<rparr>"]) simp
  next
    case (stop e1 w1)
    then show ?thesis using "0.prems" e(2) by simp
  next
    case (again e1 w1)
    then show ?thesis using 0 by simp
  qed
next
  case (Suc k)
  show ?case
  proof (cases rule: retrying_cases [of fn w a n retry_on wait])
    case (final r1 w1)
    then show ?thesis using Suc.prems by (intro exI [of _ "w\<lparr>trace := trace w @ [Attempt a]\<rparr>"]) simp
  next
    case (stop e1 w1)
    then show ?thesis using Suc.prems e(2) by simp
  next
    case (again e1 w1)
    let ?w2 = "w1\<lparr>trace := trace w1 @ [Sleep (wait a)]\<rparr>"
    have k: "k = n - Suc a" using Suc.hyps(2) by simp
    have "retrying n retry_on wait (Suc a) fn ?w2 = (Inl e, w')" using again Suc.prems by simp
    from Suc.hyps(1) [OF k this] obtain w3 where "self w3 = self ?w2" "fn w3 = (Inl e, w')" by auto
    moreover have "self w1 = self w"
      using frame [of "w\<lparr>trace := trace w @ [Attempt a]\<rparr>"] again(1) by simp
    ultimately show ?thesis by (intro exI [of _ w3]) simp
  qed
qed

text \<open>Two functions that agree wherever the object is the same are retried alike.\<close>

lemma retrying_cong:
  assumes frame: "\<And>w. self (snd (fn w)) = self w"
    and agree: "\<And>w. self w = s \<Longrightarrow> fn w = gn w"
  shows "self w = s \<Longrightarrow> retrying n retry_on wait a fn w = retrying n retry_on wait a gn w"
proof (induction "n - a" arbitrary: a w)
  case 0
  let ?w0 = "w\<lparr>trace := trace w @ [Attempt a]\<rparr>"
  have eq: "fn ?w0 = gn ?w0" using agree [of ?w0] "0.prems" by simp
  show ?case
  proof (cases rule: retrying_cases [of fn w a n retry_on wait])
    case (final r1 w1)
    then show ?thesis using eq by (cases r1) (auto simp: retrying.simps)
  next
    case (stop e w1)
    then show ?thesis using eq by (simp add: retrying.simps stop_after_attempt_def)
  next
    case (again e w1)
    then show ?thesis using 0 by simp
  qed
next
  case (Suc k)
  let ?w0 = "w\<lparr>trace := trace w @ [Attempt a]\<rparr>"
  have eq: "fn ?w0 = gn ?w0" using agree [of ?w0] Suc.prems by simp
  show ?case
  proof (cases rule: retrying_cases [of fn w a n retry_on wait])
    case (final r1 w1)
    then show ?thesis using eq by (cases r1) (auto simp: retrying.simps)
  next
    case (stop e w1)
    then show ?thesis using eq by (simp add: retrying.simps stop_after_attempt_def)
  next
    case (again e w1)
    let ?w2 = "w1\<lparr>trace := trace w1 @ [Sleep (wait a)]\<rparr>"
    have k: "k = n - Suc a" using Suc.hyps(2) by simp
    have "self ?w2 = s" using frame [of ?w0] again(1) Suc.prems by simp
    from Suc.hyps(1) [OF k this]
    have "retrying n retry_on wait (Suc a) fn ?w2 = retrying n retry_on wait (Suc a) gn ?w2" .
    moreover have "retrying n retry_on wait a gn w = retrying n retry_on wait (Suc a) gn ?w2"
      using retrying_again [of gn w a e w1 retry_on n wait] again eq by simp
    ultimately show ?thesis using again(4) by simp
  qed
qed

section \<open>The bodies of the entry points leave the object alone\<close>

lemma embed_fn_frame:
  "self (snd (embed_fn E text pp ab kw w)) = self w
   \<and> attempts (trace (snd (embed_fn E text pp ab kw w))) = attempts (trace w)
   \<and> sleeps (trace (snd (embed_fn E text pp ab kw w))) = sleeps (trace w)"
  by (simp add: embed_fn_def create_def attempts_append sleeps_append
      split: sum.splits prod.splits list.splits option.splits)

lemma aembed_fn_frame:
  "self (snd (aembed_fn E text pp ab kw w)) = self w
   \<and> attempts (trace (snd (aembed_fn E text pp ab kw w))) = attempts (trace w)
   \<and> sleeps (trace (snd (aembed_fn E text pp ab kw w))) = sleeps (trace w)"
  by (simp add: aembed_fn_def create_def attempts_append sleeps_append
      split: sum.splits prod.splits list.splits option.splits)

lemma embed_many_loop_frame:
  "self (snd (embed_many_loop E ab dt kw bs acc w)) = self w
   \<and> attempts (trace (snd (embed_many_loop E ab dt kw bs acc w))) = attempts (trace w)
   \<and> sleeps (trace (snd (embed_many_loop E ab dt kw bs acc w))) = sleeps (trace w)"
proof (induction E ab dt kw bs acc w rule: embed_many_loop.induct)
  case (3 E as_buffer dt kwargs batch batches embeddings w)
  then show ?case
    by (simp add: create_def attempts_append sleeps_append split: sum.splits prod.splits)
qed simp_all

lemma aembed_many_loop_frame:
  "self (snd (aembed_many_loop E ab dt kw bs acc w)) = self w
   \<and> attempts (trace (snd (aembed_many_loop E ab dt kw bs acc w))) = attempts (trace w)
   \<and> sleeps (trace (snd (aembed_many_loop E ab dt kw bs acc w))) = sleeps (trace w)"
proof (induction E ab dt kw bs acc w rule: aembed_many_loop.induct)
  case (3 E as_buffer dt kwargs batch batches embeddings w)
  then show ?case
    by (simp add: create_def attempts_append sleeps_append split: sum.splits prod.splits)
qed simp_all

lemma embed_many_fn_frame:
  "self (snd (embed_many_fn E texts pp bs ab kw w)) = self w
   \<and> attempts (trace (snd (embed_many_fn E texts pp bs ab kw w))) = attempts (trace w)
   \<and> sleeps (trace (snd (embed_many_fn E texts pp bs ab kw w))) = sleeps (trace w)"
  by (simp add: embed_many_fn_def embed_many_loop_frame split: prod.splits)

lemma aembed_many_fn_frame:
  "self (snd (aembed_many_fn E texts pp bs ab kw w)) = self w
   \<and> attempts (trace (snd (aembed_many_fn E texts pp bs ab kw w))) = attempts (trace w)
   \<and> sleeps (trace (snd (aembed_many_fn E texts pp bs ab kw w))) = sleeps (trace w)"
  by (simp add: aembed_many_fn_def aembed_many_loop_frame split: prod.splits)

section \<open>The decorated functions\<close>

lemma retry_TypeError:
  "fn (w\<lparr>trace := trace w @ [Attempt 1]\<rparr>) = (Inl (TypeError m), w') \<Longrightarrow>
   retry (deprecated_argument a fn) w = (Inl (TypeError m), w')"
  unfolding retry_def deprecated_argument_def
  by (rule retrying_not_retried) (simp_all add: retry_if_not_exception_type_TypeError_def)

lemma retry_TypeError_last:
  assumes frame: "\<And>w. self (snd (fn w)) = self w
        \<and> attempts (trace (snd (fn w))) = attempts (trace w)
        \<and> sleeps (trace (snd (fn w))) = sleeps (trace w)"
  shows "retry (deprecated_argument a fn) w = (Inl (TypeError m), w') \<Longrightarrow>
    \<exists>w1. self w1 = self w \<and> fn w1 = (Inl (TypeError m), w')"
  unfolding retry_def deprecated_argument_def
  by (rule retrying_Inl [where retry_on = retry_if_not_exception_type_TypeError])
     (simp_all add: frame retry_if_not_exception_type_TypeError_def)

lemma retry_value:
  "fn (w\<lparr>trace := trace w @ [Attempt 1]\<rparr>) = (Inr v, w') \<Longrightarrow>
   retry (deprecated_argument a fn) w = (Inr v, w')"
  unfolding retry_def deprecated_argument_def by (rule retrying_value)

text \<open>
  An awaited call of an asynchronous entry point: the retry loop makes its one attempt,
  which hands back the coroutine object, and the body runs once.
\<close>

lemma awaited_call:
  "await (retry (deprecated_argument a (async_def body))) w
     = body (w\<lparr>trace := trace w @ [Attempt 1]\<rparr>)"
proof -
  have "async_def body (w\<lparr>trace := trace w @ [Attempt 1]\<rparr>)
      = (Inr body, w\<lparr>trace := trace w @ [Attempt 1]\<rparr>)"
    by (simp add: async_def_def)
  then have "retry (deprecated_argument a (async_def body)) w
      = (Inr body, w\<lparr>trace := trace w @ [Attempt 1]\<rparr>)"
    by (rule retry_value)
  then show ?thesis by (simp add: await_def)
qed

lemma upt_1_7: "[1 ..< Suc 6] = [1, 2, 3, 4, 5, 6::nat]"
  by (simp add: upt_rec)

lemma waits_1_6: "map (wait_random_exponential 1 60) [1 ..< 6] = [1, 2, 4, 8, 16]"
  by (simp add: upt_rec wait_random_exponential_def)

lemma retry_gives_up:
  assumes frame: "\<And>w. self (snd (fn w)) = self w
        \<and> attempts (trace (snd (fn w))) = attempts (trace w)
        \<and> sleeps (trace (snd (fn w))) = sleeps (trace w)"
    and fails: "\<forall>w1. self w1 = self w \<longrightarrow> (\<exists>e. fst (fn w1) = Inl e \<and> \<not> isinstance_TypeError e)"
  shows "\<exists>e w'. retry (deprecated_argument a fn) w = (Inl (RetryError e), w')
      \<and> \<not> isinstance_TypeError e
      \<and> attempts (trace w') = attempts (trace w) @ [1, 2, 3, 4, 5, 6]
      \<and> sleeps (trace w') = sleeps (trace w) @ [1, 2, 4, 8, 16]"
proof -
  have "\<exists>e w'. retrying 6 retry_if_not_exception_type_TypeError (wait_random_exponential 1 60) 1 fn w
          = (Inl (RetryError e), w') \<and> retry_if_not_exception_type_TypeError e
      \<and> attempts (trace w') = attempts (trace w) @ [1 ..< Suc 6]
      \<and> sleeps (trace w') = sleeps (trace w) @ map (wait_random_exponential 1 60) [1 ..< 6]"
  proof (rule retrying_gives_up [where s = "self w"])
    show "\<And>w. self (snd (fn w)) = self w
        \<and> attempts (trace (snd (fn w))) = attempts (trace w)
        \<and> sleeps (trace (snd (fn w))) = sleeps (trace w)" by (rule frame)
    show "\<And>w1. self w1 = self w \<Longrightarrow> \<exists>e. fst (fn w1) = Inl e \<and> retry_if_not_exception_type_TypeError e"
      using fails by (simp add: retry_if_not_exception_type_TypeError_def)
  qed simp_all
  then show ?thesis
    unfolding retry_def deprecated_argument_def upt_1_7 waits_1_6
      retry_if_not_exception_type_TypeError_def
    by blast
qed

lemma retry_at_most_six:
  assumes frame: "\<And>w. self (snd (fn w)) = self w
        \<and> attempts (trace (snd (fn w))) = attempts (trace w)
        \<and> sleeps (trace (snd (fn w))) = sleeps (trace w)"
  shows "\<exists>k. 1 \<le> k \<and> k \<le> 6 \<and>
     attempts (trace (snd (retry (deprecated_argument a fn) w))) = attempts (trace w) @ [1 ..< Suc k]"
  unfolding retry_def deprecated_argument_def
  by (rule retrying_attempts_bounded) (simp_all add: frame)

lemma retry_frame:
  assumes frame: "\<And>w. self (snd (fn w)) = self w
        \<and> attempts (trace (snd (fn w))) = attempts (trace w)
        \<and> sleeps (trace (snd (fn w))) = sleeps (trace w)"
  shows "self (snd (retry (deprecated_argument a fn) w)) = self w"
  unfolding retry_def deprecated_argument_def
  by (rule retrying_frame) (simp add: frame)

section \<open>Type errors are not retried\<close>

text \<open>
  Claim C2. When the body of \<open>embed\<close>, \<open>aembed\<close>, \<open>embed_many\<close> or \<open>aembed_many\<close> raises a
  \<open>TypeError\<close> in its first attempt, the call raises that \<open>TypeError\<close> in the world the
  single run of the body left: one attempt has started, no pause was taken, and nothing
  is retried. And a \<open>TypeError\<close> that a call raises, in whatever attempt, is the
  \<open>TypeError\<close> of one run of its body, raised in the world that run left: no pause and
  no attempt follows it.
\<close>

theorem type_error_is_raised_at_once:
  "(embed_fn E text pp ab kw (w\<lparr>trace := trace w @ [Attempt 1]\<rparr>) = (Inl (TypeError m), w') \<longrightarrow>
      embed E text pp ab kw w = (Inl (TypeError m), w')
      \<and> attempts (trace w') = attempts (trace w) @ [1] \<and> sleeps (trace w') = sleeps (trace w))
   \<and> (aembed_fn E text pp ab kw (w\<lparr>trace := trace w @ [Attempt 1]\<rparr>) = (Inl (TypeError m), w') \<longrightarrow>
      aembed E text pp ab kw w = (Inl (TypeError m), w')
      \<and> attempts (trace w') = attempts (trace w) @ [1] \<and> sleeps (trace w') = sleeps (trace w))
   \<and> (embed_many_fn E texts pp bs ab kw (w\<lparr>trace := trace w @ [Attempt 1]\<rparr>) = (Inl (TypeError m), w') \<longrightarrow>
      embed_many E texts pp bs ab kw w = (Inl (TypeError m), w')
      \<and> attempts (trace w') = attempts (trace w) @ [1] \<and> sleeps (trace w') = sleeps (trace w))
   \<and> (aembed_many_fn E texts pp bs ab kw (w\<lparr>trace := trace w @ [Attempt 1]\<rparr>) = (Inl (TypeError m), w') \<longrightarrow>
      aembed_many E texts pp bs ab kw w = (Inl (TypeError m), w')
      \<and> attempts (trace w') = attempts (trace w) @ [1] \<and> sleeps (trace w') = sleeps (trace w))
   \<and> (embed E text pp ab kw w = (Inl (TypeError m), w') \<longrightarrow>
      (\<exists>w1. self w1 = self w \<and> embed_fn E text pp ab kw w1 = (Inl (TypeError m), w')))
   \<and> (aembed E text pp ab kw w = (Inl (TypeError m), w') \<longrightarrow>
      (\<exists>w1. self w1 = self w \<and> aembed_fn E text pp ab kw w1 = (Inl (TypeError m), w')))
   \<and> (embed_many E texts pp bs ab kw w = (Inl (TypeError m), w') \<longrightarrow>
      (\<exists>w1. self w1 = self w \<and> embed_many_fn E texts pp bs ab kw w1 = (Inl (TypeError m), w')))
   \<and> (aembed_many E texts pp bs ab kw w = (Inl (TypeError m), w') \<longrightarrow>
      (\<exists>w1. self w1 = self w \<and> aembed_many_fn E texts pp bs ab kw w1 = (Inl (TypeError m), w')))"
proof (intro conjI impI)
  assume b: "embed_fn E text pp ab kw (w\<lparr>trace := trace w @ [Attempt 1]\<rparr>) = (Inl (TypeError m), w')"
  show "embed E text pp ab kw w = (Inl (TypeError m), w')"
    unfolding embed_def using b by (rule retry_TypeError)
  show "attempts (trace w') = attempts (trace w) @ [1]" "sleeps (trace w') = sleeps (trace w)"
    using embed_fn_frame [of E "text" pp ab kw "w\<lparr>trace := trace w @ [Attempt 1]\<rparr>"] b
    by (simp_all add: attempts_append sleeps_append)
next
  assume b: "aembed_fn E text pp ab kw (w\<lparr>trace := trace w @ [Attempt 1]\<rparr>) = (Inl (TypeError m), w')"
  show "aembed E text pp ab kw w = (Inl (TypeError m), w')"
    using b by (simp add: aembed_def awaited_call)
  show "attempts (trace w') = attempts (trace w) @ [1]" "sleeps (trace w') = sleeps (trace w)"
    using aembed_fn_frame [of E "text" pp ab kw "w\<lparr>trace := trace w @ [Attempt 1]\<rparr>"] b
    by (simp_all add: attempts_append sleeps_append)
next
  assume b: "embed_many_fn E texts pp bs ab kw (w\<lparr>trace := trace w @ [Attempt 1]\<rparr>)
             = (Inl (TypeError m), w')"
  show "embed_many E texts pp bs ab kw w = (Inl (TypeError m), w')"
    unfolding embed_many_def using b by (rule retry_TypeError)
  show "attempts (trace w') = attempts (trace w) @ [1]" "sleeps (trace w') = sleeps (trace w)"
    using embed_many_fn_frame [of E texts pp bs ab kw "w\<lparr>trace := trace w @ [Attempt 1]\<rparr>"] b
    by (simp_all add: attempts_append sleeps_append)
next
  assume b: "aembed_many_fn E texts pp bs ab kw (w\<lparr>trace := trace w @ [Attempt 1]\<rparr>)
             = (Inl (TypeError m), w')"
  show "aembed_many E texts pp bs ab kw w = (Inl (TypeError m), w')"
    using b by (simp add: aembed_many_def awaited_call)
  show "attempts (trace w') = attempts (trace w) @ [1]" "sleeps (trace w') = sleeps (trace w)"
    using aembed_many_fn_frame [of E texts pp bs ab kw "w\<lparr>trace := trace w @ [Attempt 1]\<rparr>"] b
    by (simp_all add: attempts_append sleeps_append)
next
  assume "embed E text pp ab kw w = (Inl (TypeError m), w')"
  then show "\<exists>w1. self w1 = self w \<and> embed_fn E text pp ab kw w1 = (Inl (TypeError m), w')"
    unfolding embed_def by (rule retry_TypeError_last [OF embed_fn_frame])
next
  assume "aembed E text pp ab kw w = (Inl (TypeError m), w')"
  then show "\<exists>w1. self w1 = self w \<and> aembed_fn E text pp ab kw w1 = (Inl (TypeError m), w')"
    by (intro exI [of _ "w\<lparr>trace := trace w @ [Attempt 1]\<rparr>"]) (simp add: aembed_def awaited_call)
next
  assume "embed_many E texts pp bs ab kw w = (Inl (TypeError m), w')"
  then show "\<exists>w1. self w1 = self w \<and> embed_many_fn E texts pp bs ab kw w1 = (Inl (TypeError m), w')"
    unfolding embed_many_def by (rule retry_TypeError_last [OF embed_many_fn_frame])
next
  assume "aembed_many E texts pp bs ab kw w = (Inl (TypeError m), w')"
  then show "\<exists>w1. self w1 = self w \<and> aembed_many_fn E texts pp bs ab kw w1 = (Inl (TypeError m), w')"
    by (intro exI [of _ "w\<lparr>trace := trace w @ [Attempt 1]\<rparr>"])
       (simp add: aembed_many_def awaited_call)
qed

theorem type_error_is_raised_at_once_witness:
  "embed example_env (PInt 3) None False [] example_world
     = (Inl (TypeError ''Must pass in a str value to embed.''),
        example_world\<lparr>trace := trace example_world @ [Attempt 1]\<rparr>)
   \<and> aembed example_env (PInt 3) None False [] example_world
     = (Inl (TypeError ''Must pass in a str value to embed.''),
        example_world\<lparr>trace := trace example_world @ [Attempt 1]\<rparr>)
   \<and> embed_many example_env (PList [PInt 3]) None 10 False [] example_world
     = (Inl (TypeError ''Must pass in a list of str values to embed.''),
        example_world\<lparr>trace := trace example_world @ [Attempt 1]\<rparr>)
   \<and> aembed_many example_env (PList [PInt 3]) None 10 False [] example_world
     = (Inl (TypeError ''Must pass in a list of str values to embed.''),
        example_world\<lparr>trace := trace example_world @ [Attempt 1]\<rparr>)
   \<and> (\<exists>w1. self w1 = self example_world
        \<and> embed_many_fn example_env (PList [PInt 3]) None 10 False [] w1
          = (Inl (TypeError ''Must pass in a list of str values to embed.''),
             example_world\<lparr>trace := trace example_world @ [Attempt 1]\<rparr>))"
proof -
  let ?w = "example_world\<lparr>trace := trace example_world @ [Attempt 1]\<rparr>"
  have 1: "embed_fn example_env (PInt 3) None False [] ?w
           = (Inl (TypeError ''Must pass in a str value to embed.''), ?w)"
    by (simp add: embed_fn_def)
  have 2: "aembed_fn example_env (PInt 3) None False [] ?w
           = (Inl (TypeError ''Must pass in a str value to embed.''), ?w)"
    by (simp add: aembed_fn_def)
  have 3: "embed_many_fn example_env (PList [PInt 3]) None 10 False [] ?w
           = (Inl (TypeError ''Must pass in a list of str values to embed.''), ?w)"
    by (simp add: embed_many_fn_def)
  have 4: "aembed_many_fn example_env (PList [PInt 3]) None 10 False [] ?w
           = (Inl (TypeError ''Must pass in a list of str values to embed.''), ?w)"
    by (simp add: aembed_many_fn_def)
  note a = type_error_is_raised_at_once [of example_env "PInt 3" None False "[]" example_world
        "''Must pass in a str value to embed.''" ?w "PList [PInt 3]" 10]
  note b = type_error_is_raised_at_once [of example_env "PInt 3" None False "[]" example_world
        "''Must pass in a list of str values to embed.''" ?w "PList [PInt 3]" 10]
  from a 1 have e: "embed example_env (PInt 3) None False [] example_world
     = (Inl (TypeError ''Must pass in a str value to embed.''), ?w)" by blast
  from a 2 have ae: "aembed example_env (PInt 3) None False [] example_world
     = (Inl (TypeError ''Must pass in a str value to embed.''), ?w)" by blast
  from b 3 have m: "embed_many example_env (PList [PInt 3]) None 10 False [] example_world
     = (Inl (TypeError ''Must pass in a list of str values to embed.''), ?w)" by blast
  from b 4 have am: "aembed_many example_env (PList [PInt 3]) None 10 False [] example_world
     = (Inl (TypeError ''Must pass in a list of str values to embed.''), ?w)" by blast
  from b m have l: "\<exists>w1. self w1 = self example_world
        \<and> embed_many_fn example_env (PList [PInt 3]) None 10 False [] w1
          = (Inl (TypeError ''Must pass in a list of str values to embed.''), ?w)" by blast
  from e ae m am l show ?thesis by blast
qed

section \<open>Other failures: the synchronous entry points retry, six attempts at most\<close>

text \<open>
  When the body of \<open>embed\<close> or \<open>embed_many\<close> raises an exception other than a \<open>TypeError\<close>
  whatever requests were sent before, the call makes attempts 1 to 6, pauses between them
  with the delay bounds 1, 2, 4, 8 and 16 seconds (exponential, under the cap of 60), and
  then raises a \<open>RetryError\<close> holding the last exception. Whatever the body does, the
  attempts of one call are numbered from 1 up to some k of at most 6.
\<close>

lemma sync_calls_give_up_after_six_attempts:
  "((\<forall>w1. self w1 = self w \<longrightarrow>
        (\<exists>e. fst (embed_fn E text pp ab kw w1) = Inl e \<and> \<not> isinstance_TypeError e)) \<longrightarrow>
      (\<exists>e w'. embed E text pp ab kw w = (Inl (RetryError e), w') \<and> \<not> isinstance_TypeError e
         \<and> attempts (trace w') = attempts (trace w) @ [1, 2, 3, 4, 5, 6]
         \<and> sleeps (trace w') = sleeps (trace w) @ [1, 2, 4, 8, 16]))
   \<and> ((\<forall>w1. self w1 = self w \<longrightarrow>
        (\<exists>e. fst (embed_many_fn E texts pp bs ab kw w1) = Inl e \<and> \<not> isinstance_TypeError e)) \<longrightarrow>
      (\<exists>e w'. embed_many E texts pp bs ab kw w = (Inl (RetryError e), w') \<and> \<not> isinstance_TypeError e
         \<and> attempts (trace w') = attempts (trace w) @ [1, 2, 3, 4, 5, 6]
         \<and> sleeps (trace w') = sleeps (trace w) @ [1, 2, 4, 8, 16]))
   \<and> (\<exists>k. 1 \<le> k \<and> k \<le> 6 \<and>
        attempts (trace (snd (embed E text pp ab kw w))) = attempts (trace w) @ [1 ..< Suc k])
   \<and> (\<exists>k. 1 \<le> k \<and> k \<le> 6 \<and>
        attempts (trace (snd (embed_many E texts pp bs ab kw w))) = attempts (trace w) @ [1 ..< Suc k])"
proof (intro conjI impI)
  show "\<exists>k. 1 \<le> k \<and> k \<le> 6 \<and>
        attempts (trace (snd (embed E text pp ab kw w))) = attempts (trace w) @ [1 ..< Suc k]"
    unfolding embed_def by (rule retry_at_most_six [OF embed_fn_frame])
  show "\<exists>k. 1 \<le> k \<and> k \<le> 6 \<and>
        attempts (trace (snd (embed_many E texts pp bs ab kw w))) = attempts (trace w) @ [1 ..< Suc k]"
    unfolding embed_many_def by (rule retry_at_most_six [OF embed_many_fn_frame])
next
  assume "\<forall>w1. self w1 = self w \<longrightarrow>
        (\<exists>e. fst (embed_fn E text pp ab kw w1) = Inl e \<and> \<not> isinstance_TypeError e)"
  then show "\<exists>e w'. embed E text pp ab kw w = (Inl (RetryError e), w') \<and> \<not> isinstance_TypeError e
         \<and> attempts (trace w') = attempts (trace w) @ [1, 2, 3, 4, 5, 6]
         \<and> sleeps (trace w') = sleeps (trace w) @ [1, 2, 4, 8, 16]"
    unfolding embed_def by (rule retry_gives_up [OF embed_fn_frame])
next
  assume "\<forall>w1. self w1 = self w \<longrightarrow>
        (\<exists>e. fst (embed_many_fn E texts pp bs ab kw w1) = Inl e \<and> \<not> isinstance_TypeError e)"
  then show "\<exists>e w'. embed_many E texts pp bs ab kw w = (Inl (RetryError e), w') \<and> \<not> isinstance_TypeError e
         \<and> attempts (trace w') = attempts (trace w) @ [1, 2, 3, 4, 5, 6]
         \<and> sleeps (trace w') = sleeps (trace w) @ [1, 2, 4, 8, 16]"
    unfolding embed_many_def by (rule retry_gives_up [OF embed_many_fn_frame])
qed

lemma batchify_one: "batchify [x] 10 None = [Inr [x]]"
  by (simp add: batchify_def range0_def)

lemma failing_bodies:
  assumes "self w1 = self failing_world"
  shows "embed_fn example_env (PStr ''hi'') None False [] w1
      = (Inl (OtherError 503), w1\<lparr>trace := trace w1 @
           [Remote \<lparr>input = [PStr ''hi''], model_arg = ''text-embedding-ada-002'', extra = []\<rparr>]\<rparr>)"
    and "aembed_fn example_env (PStr ''hi'') None False [] w1
      = (Inl (OtherError 503), w1\<lparr>trace := trace w1 @
           [Remote \<lparr>input = [PStr ''hi''], model_arg = ''text-embedding-ada-002'', extra = []\<rparr>]\<rparr>)"
    and "embed_many_fn example_env (PList [PStr ''hi'']) None 10 False [] w1
      = (Inl (OtherError 503), w1\<lparr>trace := trace w1 @
           [Remote \<lparr>input = [PStr ''hi''], model_arg = ''text-embedding-ada-002'', extra = []\<rparr>]\<rparr>)"
    and "aembed_many_fn example_env (PList [PStr ''hi'']) None 10 False [] w1
      = (Inl (OtherError 503), w1\<lparr>trace := trace w1 @
           [Remote \<lparr>input = [PStr ''hi''], model_arg = ''text-embedding-ada-002'', extra = []\<rparr>]\<rparr>)"
  using assms
  by (simp_all add: embed_fn_def aembed_fn_def embed_many_fn_def aembed_many_fn_def batchify_one
      create_def dict_pop_default_def failing_world_def failing_endpoint_def example_vectorizer_def)

text \<open>
  Claim C3 holds of \<open>embed\<close> and \<open>embed_many\<close> and fails for \<open>aembed\<close> and \<open>aembed_many\<close>.
  Against an endpoint that rejects every request with an error that is not a
  \<open>TypeError\<close>, \<open>embed\<close> and \<open>embed_many\<close> send the request in each of the attempts 1 to 6,
  pause between them under the bounds 1, 2, 4, 8 and 16 seconds, and raise \<open>RetryError\<close>.
  \<open>aembed\<close> and \<open>aembed_many\<close>, under the same decorators, send the request once and raise
  the endpoint's error as it is: one attempt, no pause, no retry.
\<close>

theorem awaited_calls_are_not_retried:
  "fst (embed example_env (PStr ''hi'') None False [] failing_world)
     = Inl (RetryError (OtherError 503))
   \<and> attempts (trace (snd (embed example_env (PStr ''hi'') None False [] failing_world)))
     = [1, 2, 3, 4, 5, 6]
   \<and> sleeps (trace (snd (embed example_env (PStr ''hi'') None False [] failing_world)))
     = [1, 2, 4, 8, 16]
   \<and> length (requests (trace (snd (embed example_env (PStr ''hi'') None False [] failing_world))))
     = 6
   \<and> fst (embed_many example_env (PList [PStr ''hi'']) None 10 False [] failing_world)
     = Inl (RetryError (OtherError 503))
   \<and> attempts (trace (snd (embed_many example_env (PList [PStr ''hi'']) None 10 False []
        failing_world)))
     = [1, 2, 3, 4, 5, 6]
   \<and> sleeps (trace (snd (embed_many example_env (PList [PStr ''hi'']) None 10 False []
        failing_world)))
     = [1, 2, 4, 8, 16]
   \<and> aembed example_env (PStr ''hi'') None False [] failing_world
     = (Inl (OtherError 503),
        failing_world\<lparr>trace :=
          [Attempt 1,
           Remote \<lparr>input = [PStr ''hi''], model_arg = ''text-embedding-ada-002'',
                   extra = []\<rparr>]\<rparr>)
   \<and> aembed_many example_env (PList [PStr ''hi'']) None 10 False [] failing_world
     = (Inl (OtherError 503),
        failing_world\<lparr>trace :=
          [Attempt 1,
           Remote \<lparr>input = [PStr ''hi''], model_arg = ''text-embedding-ada-002'',
                   extra = []\<rparr>]\<rparr>)"
proof -
  let ?r = "\<lparr>input = [PStr ''hi''], model_arg = ''text-embedding-ada-002'', extra = []\<rparr>"
  let ?tr = "[Attempt 1, Remote ?r, Sleep 1, Attempt 2, Remote ?r, Sleep 2,
              Attempt 3, Remote ?r, Sleep 4, Attempt 4, Remote ?r, Sleep 8,
              Attempt 5, Remote ?r, Sleep 16, Attempt 6, Remote ?r]"
  have t: "trace failing_world = []" by (simp add: failing_world_def)
  have 1: "embed example_env (PStr ''hi'') None False [] failing_world
      = (Inl (RetryError (OtherError 503)), failing_world\<lparr>trace := ?tr\<rparr>)"
    by (simp add: embed_def retry_def deprecated_argument_def retrying.simps failing_bodies t
        stop_after_attempt_def retry_if_not_exception_type_TypeError_def
        wait_random_exponential_def)
  have 2: "embed_many example_env (PList [PStr ''hi'']) None 10 False [] failing_world
      = (Inl (RetryError (OtherError 503)), failing_world\<lparr>trace := ?tr\<rparr>)"
    by (simp add: embed_many_def retry_def deprecated_argument_def retrying.simps failing_bodies t
        stop_after_attempt_def retry_if_not_exception_type_TypeError_def
        wait_random_exponential_def)
  have 3: "aembed example_env (PStr ''hi'') None False [] failing_world
      = (Inl (OtherError 503), failing_world\<lparr>trace := [Attempt 1, Remote ?r]\<rparr>)"
    by (simp add: aembed_def awaited_call failing_bodies t)
  have 4: "aembed_many example_env (PList [PStr ''hi'']) None 10 False [] failing_world
      = (Inl (OtherError 503), failing_world\<lparr>trace := [Attempt 1, Remote ?r]\<rparr>)"
    by (simp add: aembed_many_def awaited_call failing_bodies t)
  show ?thesis unfolding 1 2 3 4 by simp
qed

section \<open>Input validation\<close>

lemma embed_not_str:
  "\<not> isinstance_str text \<Longrightarrow>
   embed E text pp ab kw w
     = (Inl (TypeError ''Must pass in a str value to embed.''), w\<lparr>trace := trace w @ [Attempt 1]\<rparr>)"
  unfolding embed_def by (rule retry_TypeError) (simp add: embed_fn_def)

lemma aembed_not_str:
  "\<not> isinstance_str text \<Longrightarrow>
   aembed E text pp ab kw w
     = (Inl (TypeError ''Must pass in a str value to embed.''), w\<lparr>trace := trace w @ [Attempt 1]\<rparr>)"
  by (simp add: aembed_def awaited_call aembed_fn_def)

lemma embed_many_not_strs:
  "\<not> isinstance_list texts \<or> (0 < length (items texts) \<and> \<not> isinstance_str (items texts ! 0)) \<Longrightarrow>
   embed_many E texts pp bs ab kw w
     = (Inl (TypeError ''Must pass in a list of str values to embed.''),
        w\<lparr>trace := trace w @ [Attempt 1]\<rparr>)"
  unfolding embed_many_def by (rule retry_TypeError) (auto simp: embed_many_fn_def)

lemma aembed_many_not_strs:
  "\<not> isinstance_list texts \<or> (0 < length (items texts) \<and> \<not> isinstance_str (items texts ! 0)) \<Longrightarrow>
   aembed_many E texts pp bs ab kw w
     = (Inl (TypeError ''Must pass in a list of str values to embed.''),
        w\<lparr>trace := trace w @ [Attempt 1]\<rparr>)"
  by (auto simp: aembed_many_def awaited_call aembed_many_fn_def)

text \<open>
  Claim C1, as amended. A text that is not a string makes \<open>embed\<close> and \<open>aembed\<close> raise a
  \<open>TypeError\<close>; an argument that is not a list, or a non-empty list whose first element is
  not a string, makes \<open>embed_many\<close> and \<open>aembed_many\<close> raise one. In each case the body
  ran once and no request was sent to the remote endpoint.
\<close>

theorem malformed_input_raises_TypeError_before_any_request:
  "(\<not> isinstance_str text \<longrightarrow>
      embed E text pp ab kw w
        = (Inl (TypeError ''Must pass in a str value to embed.''),
           w\<lparr>trace := trace w @ [Attempt 1]\<rparr>)
      \<and> requests (trace (snd (embed E text pp ab kw w))) = requests (trace w))
   \<and> (\<not> isinstance_str text \<longrightarrow>
      aembed E text pp ab kw w
        = (Inl (TypeError ''Must pass in a str value to embed.''),
           w\<lparr>trace := trace w @ [Attempt 1]\<rparr>)
      \<and> requests (trace (snd (aembed E text pp ab kw w))) = requests (trace w))
   \<and> (\<not> isinstance_list texts \<or> (0 < length (items texts) \<and> \<not> isinstance_str (items texts ! 0)) \<longrightarrow>
      embed_many E texts pp bs ab kw w
        = (Inl (TypeError ''Must pass in a list of str values to embed.''),
           w\<lparr>trace := trace w @ [Attempt 1]\<rparr>)
      \<and> requests (trace (snd (embed_many E texts pp bs ab kw w))) = requests (trace w))
   \<and> (\<not> isinstance_list texts \<or> (0 < length (items texts) \<and> \<not> isinstance_str (items texts ! 0)) \<longrightarrow>
      aembed_many E texts pp bs ab kw w
        = (Inl (TypeError ''Must pass in a list of str values to embed.''),
           w\<lparr>trace := trace w @ [Attempt 1]\<rparr>)
      \<and> requests (trace (snd (aembed_many E texts pp bs ab kw w))) = requests (trace w))"
proof (intro conjI impI)
  assume "\<not> isinstance_str text"
  then show "embed E text pp ab kw w
        = (Inl (TypeError ''Must pass in a str value to embed.''), w\<lparr>trace := trace w @ [Attempt 1]\<rparr>)"
    "requests (trace (snd (embed E text pp ab kw w))) = requests (trace w)"
    "aembed E text pp ab kw w
        = (Inl (TypeError ''Must pass in a str value to embed.''), w\<lparr>trace := trace w @ [Attempt 1]\<rparr>)"
    "requests (trace (snd (aembed E text pp ab kw w))) = requests (trace w)"
    by (simp_all add: embed_not_str aembed_not_str requests_append)
next
  assume "\<not> isinstance_list texts \<or> (0 < length (items texts) \<and> \<not> isinstance_str (items texts ! 0))"
  then show "embed_many E texts pp bs ab kw w
        = (Inl (TypeError ''Must pass in a list of str values to embed.''),
           w\<lparr>trace := trace w @ [Attempt 1]\<rparr>)"
    "requests (trace (snd (embed_many E texts pp bs ab kw w))) = requests (trace w)"
    "aembed_many E texts pp bs ab kw w
        = (Inl (TypeError ''Must pass in a list of str values to embed.''),
           w\<lparr>trace := trace w @ [Attempt 1]\<rparr>)"
    "requests (trace (snd (aembed_many E texts pp bs ab kw w))) = requests (trace w)"
    by (simp_all add: embed_many_not_strs aembed_many_not_strs requests_append)
qed

theorem malformed_input_raises_TypeError_before_any_request_witness:
  "fst (embed example_env (PInt 3) None False [] example_world)
     = Inl (TypeError ''Must pass in a str value to embed.'')
   \<and> requests (trace (snd (embed example_env (PInt 3) None False [] example_world))) = []
   \<and> fst (aembed example_env (PInt 3) None False [] example_world)
     = Inl (TypeError ''Must pass in a str value to embed.'')
   \<and> requests (trace (snd (aembed example_env (PInt 3) None False [] example_world))) = []
   \<and> fst (embed_many example_env (PList [PInt 3, PStr ''a'']) None 10 False [] example_world)
     = Inl (TypeError ''Must pass in a list of str values to embed.'')
   \<and> requests (trace (snd (embed_many example_env (PList [PInt 3, PStr ''a'']) None 10 False []
        example_world))) = []
   \<and> fst (aembed_many example_env (PList [PInt 3, PStr ''a'']) None 10 False [] example_world)
     = Inl (TypeError ''Must pass in a list of str values to embed.'')
   \<and> requests (trace (snd (aembed_many example_env (PList [PInt 3, PStr ''a'']) None 10 False []
        example_world))) = []"
proof -
  have h1: "\<not> isinstance_str (PInt 3)" by simp
  have h2: "\<not> isinstance_list (PList [PInt 3, PStr ''a''])
      \<or> (0 < length (items (PList [PInt 3, PStr ''a'']))
          \<and> \<not> isinstance_str (items (PList [PInt 3, PStr ''a'']) ! 0))" by simp
  have t: "requests (trace example_world) = []" by (simp add: example_world_def)
  show ?thesis
    using malformed_input_raises_TypeError_before_any_request
      [of "PInt 3" example_env None False "[]" example_world "PList [PInt 3, PStr ''a'']" 10]
      h1 h2 unfolding t by (simp add: requests_append t)
qed

text \<open>
  Claim C1 as the spec states it fails: only the first element of the list is tested. A
  list whose second element is not a string passes the validation of \<open>embed_many\<close>, is
  sent to the remote endpoint in each of the six attempts, and the call ends with the
  endpoint's rejection wrapped in a \<open>RetryError\<close>, not with a \<open>TypeError\<close>.
\<close>

theorem later_non_string_reaches_the_endpoint:
  "fst (embed_many example_env (PList [PStr ''a'', PInt 1]) None 10 False [] example_world)
     = Inl (RetryError (OtherError 400))
   \<and> requests (trace (snd (embed_many example_env (PList [PStr ''a'', PInt 1]) None 10 False []
        example_world)))
     = replicate 6 \<lparr>input = [PStr ''a'', PInt 1], model_arg = ''text-embedding-ada-002'', extra = []\<rparr>"
proof -
  have b: "batchify [PStr ''a'', PInt 1] 10 None = [Inr [PStr ''a'', PInt 1]]"
    by (simp add: batchify_def range0_def)
  have r: "replicate 6 x = [x, x, x, x, x, x]" for x :: request
    by (simp add: numeral_eq_Suc)
  have f: "embed_many_fn example_env (PList [PStr ''a'', PInt 1]) None 10 False [] w1
      = (Inl (OtherError 400), w1\<lparr>trace := trace w1 @
           [Remote \<lparr>input = [PStr ''a'', PInt 1], model_arg = ''text-embedding-ada-002'', extra = []\<rparr>]\<rparr>)"
    if "self w1 = example_vectorizer" for w1
    using that
    by (simp add: embed_many_fn_def b create_def dict_pop_default_def example_vectorizer_def
        example_endpoint_def)
  have 1: "embed_many example_env (PList [PStr ''a'', PInt 1]) None 10 False [] example_world
     = (Inl (RetryError (OtherError 400)),
        \<lparr>self = example_vectorizer,
         trace = concat (map (\<lambda>n. [Attempt n, Remote \<lparr>input = [PStr ''a'', PInt 1],
             model_arg = ''text-embedding-ada-002'', extra = []\<rparr>, Sleep (2 ^ (n - 1))]) [1, 2, 3, 4, 5])
           @ [Attempt 6, Remote \<lparr>input = [PStr ''a'', PInt 1],
             model_arg = ''text-embedding-ada-002'', extra = []\<rparr>]\<rparr>)"
    by (simp add: embed_many_def retry_def deprecated_argument_def retrying.simps f
        example_world_def stop_after_attempt_def retry_if_not_exception_type_TypeError_def
        wait_random_exponential_def)
  show ?thesis unfolding 1 r by simp
qed

section \<open>Batching\<close>

declare consecutive_batches.simps [simp del]

lemma consecutive_batches_Nil [simp]: "consecutive_batches n [] = []"
  by (simp add: consecutive_batches.simps)








lemma batchify_empty: "bs \<noteq> 0 \<Longrightarrow> batchify [] bs pp = []"
  by (simp add: batchify_def range0_def)

section \<open>Preprocessing and the loop over the batches\<close>










section \<open>The empty list\<close>

text \<open>
  Claim C8, as amended. For the empty list and a batch size that is not zero,
  \<open>embed_many\<close> and \<open>aembed_many\<close> return the empty list from their first attempt and
  send no request to the remote endpoint.
\<close>

theorem empty_list_embeds_to_nothing:
  "bs \<noteq> 0 \<longrightarrow>
     embed_many E (PList []) pp bs ab kw w = (Inr [], w\<lparr>trace := trace w @ [Attempt 1]\<rparr>)
     \<and> requests (trace (snd (embed_many E (PList []) pp bs ab kw w))) = requests (trace w)
     \<and> aembed_many E (PList []) pp bs ab kw w = (Inr [], w\<lparr>trace := trace w @ [Attempt 1]\<rparr>)
     \<and> requests (trace (snd (aembed_many E (PList []) pp bs ab kw w))) = requests (trace w)"
proof
  assume bs: "bs \<noteq> 0"
  let ?w = "w\<lparr>trace := trace w @ [Attempt 1]\<rparr>"
  have "embed_many_fn E (PList []) pp bs ab kw ?w = (Inr [], ?w)"
    using bs by (simp add: embed_many_fn_def batchify_empty split: prod.splits)
  then have 1: "embed_many E (PList []) pp bs ab kw w = (Inr [], ?w)"
    unfolding embed_many_def by (rule retry_value)
  have "aembed_many_fn E (PList []) pp bs ab kw ?w = (Inr [], ?w)"
    using bs by (simp add: aembed_many_fn_def batchify_empty split: prod.splits)
  then have 2: "aembed_many E (PList []) pp bs ab kw w = (Inr [], ?w)"
    by (simp add: aembed_many_def awaited_call)
  show "embed_many E (PList []) pp bs ab kw w = (Inr [], ?w)
     \<and> requests (trace (snd (embed_many E (PList []) pp bs ab kw w))) = requests (trace w)
     \<and> aembed_many E (PList []) pp bs ab kw w = (Inr [], ?w)
     \<and> requests (trace (snd (aembed_many E (PList []) pp bs ab kw w))) = requests (trace w)"
    unfolding 1 2 by (simp add: requests_append)
qed

theorem empty_list_embeds_to_nothing_witness:
  "(10::int) \<noteq> 0
   \<and> embed_many example_env (PList []) None 10 False [] failing_world
     = (Inr [], failing_world\<lparr>trace := [Attempt 1]\<rparr>)
   \<and> requests (trace (snd (embed_many example_env (PList []) None 10 False [] failing_world))) = []
   \<and> aembed_many example_env (PList []) None 10 False [] failing_world
     = (Inr [], failing_world\<lparr>trace := [Attempt 1]\<rparr>)
   \<and> requests (trace (snd (aembed_many example_env (PList []) None 10 False [] failing_world))) = []"
proof -
  have t: "trace failing_world = []" by (simp add: failing_world_def)
  show ?thesis
    using empty_list_embeds_to_nothing [of 10 example_env None False "[]" failing_world]
    by (simp add: t)
qed

text \<open>
  Claim C8 as the spec states it fails at the batch size zero, which \<open>embed_many\<close>
  accepts: the batches are cut at the positions \<open>range(0, len(texts), batch_size)\<close>, and
  a zero step is a \<open>ValueError\<close>. It is not a \<open>TypeError\<close>, so the call is retried: six
  attempts and five pauses, no request, and a \<open>RetryError\<close> in place of the empty list.
\<close>

theorem empty_list_with_batch_size_zero_raises:
  "fst (embed_many example_env (PList []) None 0 False [] example_world)
     = Inl (RetryError (ValueError ''range() arg 3 must not be zero''))
   \<and> attempts (trace (snd (embed_many example_env (PList []) None 0 False [] example_world)))
     = [1, 2, 3, 4, 5, 6]
   \<and> sleeps (trace (snd (embed_many example_env (PList []) None 0 False [] example_world)))
     = [1, 2, 4, 8, 16]
   \<and> requests (trace (snd (embed_many example_env (PList []) None 0 False [] example_world)))
     = []"
proof -
  have f: "embed_many_fn example_env (PList []) None 0 False [] w1
      = (Inl (ValueError ''range() arg 3 must not be zero''), w1)" for w1
    by (simp add: embed_many_fn_def batchify_def range0_def dict_pop_default_def)
  have 1: "embed_many example_env (PList []) None 0 False [] example_world
      = (Inl (RetryError (ValueError ''range() arg 3 must not be zero'')),
         example_world\<lparr>trace :=
           [Attempt 1, Sleep 1, Attempt 2, Sleep 2, Attempt 3, Sleep 4, Attempt 4, Sleep 8,
            Attempt 5, Sleep 16, Attempt 6]\<rparr>)"
    by (simp add: embed_many_def retry_def deprecated_argument_def retrying.simps f
        example_world_def stop_after_attempt_def retry_if_not_exception_type_TypeError_def
        wait_random_exponential_def)
  show ?thesis unfolding 1 by simp
qed

section \<open>Batches and the order of the results\<close>





section \<open>Construction\<close>

lemma embed_probe_value:
  assumes "embed E (PStr ''dimension check'') None False [] w = (Inr emb, w')"
  shows "\<exists>pre vec rest. self w' = self w
    \<and> trace w' = pre @ [Remote \<lparr>input = [PStr ''dimension check''], model_arg = model (self w),
                                extra = []\<rparr>]
    \<and> client (self w) (requests pre)
         \<lparr>input = [PStr ''dimension check''], model_arg = model (self w), extra = []\<rparr>
       = Inr (vec # rest)
    \<and> emb = Floats vec"
proof -
  from assms have "retrying 6 retry_if_not_exception_type_TypeError (wait_random_exponential 1 60) 1
      (embed_fn E (PStr ''dimension check'') None False []) w = (Inr emb, w')"
    by (simp add: embed_def retry_def deprecated_argument_def)
  from retrying_Inr [OF _ this] embed_fn_frame
  obtain w1 where w1: "self w1 = self w"
    "embed_fn E (PStr ''dimension check'') None False [] w1 = (Inr emb, w')" by blast
  from w1(2) show ?thesis using w1(1)
    by (auto simp: embed_fn_def create_def dict_pop_default_def process_embedding_def
        split: sum.splits list.splits)
qed

lemma init_value:
  assumes "init E mdl cfg dty ikw tr0 = (Inr v, tr1)"
  shows "\<exists>c ac tr' pre vec rest.
      valid_dtype E dty
    \<and> initialize_clients E cfg ikw tr0 = (Inr (c, ac), tr')
    \<and> v = \<lparr>model = mdl, dtype = dty, dims = Some (length vec), client = c, aclient = ac\<rparr>
    \<and> tr1 = pre @ [Remote \<lparr>input = [PStr ''dimension check''], model_arg = mdl, extra = []\<rparr>]
    \<and> c (requests pre) \<lparr>input = [PStr ''dimension check''], model_arg = mdl, extra = []\<rparr>
        = Inr (vec # rest)"
proof -
  from assms have vd: "valid_dtype E dty" by (auto simp: init_def split: if_splits)
  from assms vd obtain c ac tr' where ic: "initialize_clients E cfg ikw tr0 = (Inr (c, ac), tr')"
    by (cases "initialize_clients E cfg ikw tr0") (auto simp: init_def split: sum.splits)
  let ?w0 = "\<lparr>self = \<lparr>model = mdl, dtype = dty, dims = None, client = c, aclient = ac\<rparr>, trace = tr'\<rparr>"
  from assms vd ic obtain n w' where sm: "set_model_dims E ?w0 = (Inr n, w')"
    and v: "v = (self w')\<lparr>dims := Some n\<rparr>" and tr1: "tr1 = trace w'"
    by (cases "set_model_dims E ?w0") (auto simp: init_def split: sum.splits)
  from sm obtain emb where em: "embed E (PStr ''dimension check'') None False [] ?w0 = (Inr emb, w')"
    and n: "n = len emb"
    by (cases "embed E (PStr ''dimension check'') None False [] ?w0")
       (auto simp: set_model_dims_def split: sum.splits if_splits)
  from embed_probe_value [OF em] obtain pre vec rest where p: "self w' = self ?w0"
    "trace w' = pre @ [Remote \<lparr>input = [PStr ''dimension check''], model_arg = mdl, extra = []\<rparr>]"
    "c (requests pre) \<lparr>input = [PStr ''dimension check''], model_arg = mdl, extra = []\<rparr>
       = Inr (vec # rest)"
    "emb = Floats vec" by auto
  show ?thesis using vd ic v tr1 n p by (intro exI [of _ c] exI [of _ ac] exI [of _ tr']
        exI [of _ pre] exI [of _ vec] exI [of _ rest]) simp
qed

section \<open>The dimension of the vectors\<close>

text \<open>
  Claim C5. A successful construction ends with the request that embeds the sentinel
  string \<open>dimension check\<close>; \<open>dims\<close> is the length of the first vector of the endpoint's
  answer to that request. Afterwards no call of \<open>embed\<close>, \<open>aembed\<close>, \<open>embed_many\<close> or
  \<open>aembed_many\<close> changes \<open>dims\<close>, whatever its arguments and its outcome.
\<close>

theorem dims_is_set_by_the_probe_and_kept:
  "(init E mdl cfg dty ikw tr0 = (Inr v, tr1) \<longrightarrow>
      (\<exists>pre vec rest.
          tr1 = pre @ [Remote \<lparr>input = [PStr ''dimension check''], model_arg = mdl, extra = []\<rparr>]
        \<and> client v (requests pre)
             \<lparr>input = [PStr ''dimension check''], model_arg = mdl, extra = []\<rparr> = Inr (vec # rest)
        \<and> dims v = Some (length vec)))
   \<and> dims (self (snd (embed E text pp ab kw w))) = dims (self w)
   \<and> dims (self (snd (aembed E text pp ab kw w))) = dims (self w)
   \<and> dims (self (snd (embed_many E texts pp bs ab kw w))) = dims (self w)
   \<and> dims (self (snd (aembed_many E texts pp bs ab kw w))) = dims (self w)"
proof (intro conjI impI)
  assume "init E mdl cfg dty ikw tr0 = (Inr v, tr1)"
  from init_value [OF this] show "\<exists>pre vec rest.
          tr1 = pre @ [Remote \<lparr>input = [PStr ''dimension check''], model_arg = mdl, extra = []\<rparr>]
        \<and> client v (requests pre)
             \<lparr>input = [PStr ''dimension check''], model_arg = mdl, extra = []\<rparr> = Inr (vec # rest)
        \<and> dims v = Some (length vec)"
    by auto
next
  show "dims (self (snd (embed E text pp ab kw w))) = dims (self w)"
    unfolding embed_def by (simp add: retry_frame [OF embed_fn_frame])
  show "dims (self (snd (aembed E text pp ab kw w))) = dims (self w)"
    by (simp add: aembed_def awaited_call aembed_fn_frame)
  show "dims (self (snd (embed_many E texts pp bs ab kw w))) = dims (self w)"
    unfolding embed_many_def by (simp add: retry_frame [OF embed_many_fn_frame])
  show "dims (self (snd (aembed_many E texts pp bs ab kw w))) = dims (self w)"
    by (simp add: aembed_many_def awaited_call aembed_many_fn_frame)
qed

lemma example_init:
  "init example_env ''text-embedding-ada-002'' None ''float32'' [] []
     = (Inr example_vectorizer,
        [Getenv ''OPENAI_API_KEY'', Attempt 1,
         Remote \<lparr>input = [PStr ''dimension check''], model_arg = ''text-embedding-ada-002'',
                 extra = []\<rparr>])"
proof -
  have ic: "initialize_clients example_env None [] []
      = (Inr (example_endpoint, example_endpoint), [Getenv ''OPENAI_API_KEY''])"
    by (simp add: initialize_clients_def example_env_def call_client_def)
  let ?w0 = "\<lparr>self = \<lparr>model = ''text-embedding-ada-002'', dtype = ''float32'', dims = None,
                client = example_endpoint, aclient = example_endpoint\<rparr>,
              trace = [Getenv ''OPENAI_API_KEY'']\<rparr>"
  let ?req = "\<lparr>input = [PStr ''dimension check''], model_arg = ''text-embedding-ada-002'',
                 extra = []\<rparr>"
  have "embed_fn example_env (PStr ''dimension check'') None False []
          (?w0\<lparr>trace := trace ?w0 @ [Attempt 1]\<rparr>)
      = (Inr (Floats [15, 0, 0]),
         ?w0\<lparr>trace := [Getenv ''OPENAI_API_KEY'', Attempt 1, Remote ?req]\<rparr>)"
    by (simp add: embed_fn_def create_def dict_pop_default_def example_endpoint_def
        process_embedding_def)
  then have "embed example_env (PStr ''dimension check'') None False [] ?w0
      = (Inr (Floats [15, 0, 0]),
         ?w0\<lparr>trace := [Getenv ''OPENAI_API_KEY'', Attempt 1, Remote ?req]\<rparr>)"
    unfolding embed_def by (rule retry_value)
  then have "set_model_dims example_env ?w0
      = (Inr 3, ?w0\<lparr>trace := [Getenv ''OPENAI_API_KEY'', Attempt 1, Remote ?req]\<rparr>)"
    by (simp add: set_model_dims_def)
  then show ?thesis
    by (simp add: init_def ic example_vectorizer_def) (simp add: example_env_def)
qed

theorem dims_is_set_by_the_probe_and_kept_witness:
  "init example_env ''text-embedding-ada-002'' None ''float32'' [] []
     = (Inr example_vectorizer,
        [Getenv ''OPENAI_API_KEY'', Attempt 1,
         Remote \<lparr>input = [PStr ''dimension check''], model_arg = ''text-embedding-ada-002'',
                 extra = []\<rparr>])
   \<and> (\<exists>vec rest.
        client example_vectorizer (requests [Getenv ''OPENAI_API_KEY'', Attempt 1])
          \<lparr>input = [PStr ''dimension check''], model_arg = ''text-embedding-ada-002'', extra = []\<rparr>
          = Inr (vec # rest)
        \<and> dims example_vectorizer = Some (length vec))
   \<and> dims (self (snd (embed example_env (PStr ''hi'') None False [] example_world))) = Some 3"
proof -
  have d: "dims (self example_world) = Some 3"
    by (simp add: example_world_def example_vectorizer_def)
  show ?thesis
    using dims_is_set_by_the_probe_and_kept
      [of example_env "''text-embedding-ada-002''" None "''float32''" "[]" "[]" example_vectorizer
        "[Getenv ''OPENAI_API_KEY'', Attempt 1,
         Remote \<lparr>input = [PStr ''dimension check''], model_arg = ''text-embedding-ada-002'',
                 extra = []\<rparr>]" "PStr ''hi''" None False "[]" example_world]
      example_init d
    by auto
qed








section \<open>The asynchronous entry points against the synchronous ones\<close>

lemma loops_agree:
  "aclient (self w) = client (self w) \<Longrightarrow>
   aembed_many_loop E ab dt kw bs acc w = embed_many_loop E ab dt kw bs acc w"
proof (induction bs arbitrary: acc w)
  case Nil
  then show ?case by simp
next
  case (Cons b bs)
  show ?case
  proof (cases b)
    case (Inl e)
    then show ?thesis by simp
  next
    case (Inr batch)
    then show ?thesis using Cons.prems
      by (simp add: create_def Cons.IH split: sum.splits)
  qed
qed

lemma bodies_agree:
  assumes "aclient (self w) = client (self w)"
  shows "aembed_fn E text pp ab kw w = embed_fn E text pp ab kw w"
    and "aembed_many_fn E texts pp bs ab kw w = embed_many_fn E texts pp bs ab kw w"
  unfolding aembed_fn_def embed_fn_def aembed_many_fn_def embed_many_fn_def
    loops_agree [OF assms] assms
  by (rule refl)+

lemma calls_agree_when_the_first_attempt_settles:
  assumes same: "aclient (self w) = client (self w)"
    and settled: "\<forall>e. fst (embed_fn E text pp ab kw (w\<lparr>trace := trace w @ [Attempt 1]\<rparr>)) = Inl e
        \<longrightarrow> isinstance_TypeError e"
  shows "aembed E text pp ab kw w = embed E text pp ab kw w"
proof -
  let ?w = "w\<lparr>trace := trace w @ [Attempt 1]\<rparr>"
  obtain r w' where b: "embed_fn E text pp ab kw ?w = (r, w')"
    by (cases "embed_fn E text pp ab kw ?w")
  have a: "aembed E text pp ab kw w = (r, w')"
    using bodies_agree(1) [of ?w E "text" pp ab kw] same b by (simp add: aembed_def awaited_call)
  have "embed E text pp ab kw w = (r, w')"
  proof (cases r)
    case (Inr v)
    then show ?thesis using b unfolding embed_def by (simp add: retry_value)
  next
    case (Inl e)
    then have "isinstance_TypeError e" using settled b by simp
    then obtain m where "e = TypeError m" by (cases e) simp_all
    then show ?thesis using b Inl unfolding embed_def by (simp add: retry_TypeError)
  qed
  with a show ?thesis by simp
qed

text \<open>
  Claim C7 fails where the remote call fails. The bodies of the asynchronous entry points
  are those of the synchronous ones, and the calls agree when the first attempt returns or
  raises a \<open>TypeError\<close>; but \<open>embed\<close> and \<open>embed_many\<close> are retried and \<open>aembed\<close> and
  \<open>aembed_many\<close> are not. Against one endpoint for both clients, which rejects the first
  request it gets and answers the later ones, \<open>embed\<close> and \<open>embed_many\<close> return the vectors
  from their second attempt, and \<open>aembed\<close> and \<open>aembed_many\<close>, with the same arguments,
  raise the endpoint's error.
\<close>

theorem sync_call_recovers_where_awaited_call_raises:
  "aclient (self flaky_world) = client (self flaky_world)
   \<and> embed example_env (PStr ''hi'') None False [] flaky_world
     = (Inr (Floats [2, 0, 0]),
        flaky_world\<lparr>trace :=
          [Attempt 1,
           Remote \<lparr>input = [PStr ''hi''], model_arg = ''text-embedding-ada-002'', extra = []\<rparr>,
           Sleep 1,
           Attempt 2,
           Remote \<lparr>input = [PStr ''hi''], model_arg = ''text-embedding-ada-002'',
                   extra = []\<rparr>]\<rparr>)
   \<and> aembed example_env (PStr ''hi'') None False [] flaky_world
     = (Inl (OtherError 503),
        flaky_world\<lparr>trace :=
          [Attempt 1,
           Remote \<lparr>input = [PStr ''hi''], model_arg = ''text-embedding-ada-002'',
                   extra = []\<rparr>]\<rparr>)
   \<and> embed_many example_env (PList [PStr ''a'', PStr ''bb'']) None 10 False [] flaky_world
     = (Inr [Floats [1, 0, 0], Floats [2, 0, 0]],
        flaky_world\<lparr>trace :=
          [Attempt 1,
           Remote \<lparr>input = [PStr ''a'', PStr ''bb''], model_arg = ''text-embedding-ada-002'',
                   extra = []\<rparr>,
           Sleep 1,
           Attempt 2,
           Remote \<lparr>input = [PStr ''a'', PStr ''bb''], model_arg = ''text-embedding-ada-002'',
                   extra = []\<rparr>]\<rparr>)
   \<and> aembed_many example_env (PList [PStr ''a'', PStr ''bb'']) None 10 False [] flaky_world
     = (Inl (OtherError 503),
        flaky_world\<lparr>trace :=
          [Attempt 1,
           Remote \<lparr>input = [PStr ''a'', PStr ''bb''], model_arg = ''text-embedding-ada-002'',
                   extra = []\<rparr>]\<rparr>)"
proof -
  have b: "batchify [PStr ''a'', PStr ''bb''] 10 None = [Inr [PStr ''a'', PStr ''bb'']]"
    by (simp add: batchify_def range0_def)
  have 0: "aclient (self flaky_world) = client (self flaky_world)"
    by (simp add: flaky_world_def)
  have 1: "embed example_env (PStr ''hi'') None False [] flaky_world
     = (Inr (Floats [2, 0, 0]),
        flaky_world\<lparr>trace :=
          [Attempt 1,
           Remote \<lparr>input = [PStr ''hi''], model_arg = ''text-embedding-ada-002'', extra = []\<rparr>,
           Sleep 1,
           Attempt 2,
           Remote \<lparr>input = [PStr ''hi''], model_arg = ''text-embedding-ada-002'',
                   extra = []\<rparr>]\<rparr>)"
    by (simp add: embed_def retry_def deprecated_argument_def retrying.simps embed_fn_def
        create_def dict_pop_default_def process_embedding_def flaky_world_def flaky_endpoint_def
        example_endpoint_def example_vectorizer_def stop_after_attempt_def
        retry_if_not_exception_type_TypeError_def wait_random_exponential_def)
  have 2: "aembed example_env (PStr ''hi'') None False [] flaky_world
     = (Inl (OtherError 503),
        flaky_world\<lparr>trace :=
          [Attempt 1,
           Remote \<lparr>input = [PStr ''hi''], model_arg = ''text-embedding-ada-002'',
                   extra = []\<rparr>]\<rparr>)"
    by (simp add: aembed_def awaited_call aembed_fn_def create_def dict_pop_default_def
        flaky_world_def flaky_endpoint_def example_vectorizer_def)
  have 3: "embed_many example_env (PList [PStr ''a'', PStr ''bb'']) None 10 False [] flaky_world
     = (Inr [Floats [1, 0, 0], Floats [2, 0, 0]],
        flaky_world\<lparr>trace :=
          [Attempt 1,
           Remote \<lparr>input = [PStr ''a'', PStr ''bb''], model_arg = ''text-embedding-ada-002'',
                   extra = []\<rparr>,
           Sleep 1,
           Attempt 2,
           Remote \<lparr>input = [PStr ''a'', PStr ''bb''], model_arg = ''text-embedding-ada-002'',
                   extra = []\<rparr>]\<rparr>)"
    by (simp add: embed_many_def retry_def deprecated_argument_def retrying.simps
        embed_many_fn_def b create_def dict_pop_default_def process_embedding_def flaky_world_def
        flaky_endpoint_def example_endpoint_def example_vectorizer_def stop_after_attempt_def
        retry_if_not_exception_type_TypeError_def wait_random_exponential_def)
  have 4: "aembed_many example_env (PList [PStr ''a'', PStr ''bb'']) None 10 False [] flaky_world
     = (Inl (OtherError 503),
        flaky_world\<lparr>trace :=
          [Attempt 1,
           Remote \<lparr>input = [PStr ''a'', PStr ''bb''], model_arg = ''text-embedding-ada-002'',
                   extra = []\<rparr>]\<rparr>)"
    by (simp add: aembed_many_def awaited_call aembed_many_fn_def b create_def
        dict_pop_default_def flaky_world_def flaky_endpoint_def example_vectorizer_def)
  from 0 1 2 3 4 show ?thesis by blast
qed

section \<open>The API key\<close>

lemma initialize_clients_config:
  "d \<noteq> [] \<Longrightarrow> snd (initialize_clients E (Some d) ikw tr) = tr"
  by (simp add: initialize_clients_def Let_def split: sum.splits prod.splits)

lemma initialize_clients_no_key:
  "openai_installed E \<Longrightarrow> d \<noteq> [] \<Longrightarrow> ''api_key'' \<notin> set (map fst d) \<Longrightarrow>
   initialize_clients E (Some d) ikw tr = (Inl (KeyError ''api_key''), tr)"
proof -
  assume a: "openai_installed E" "d \<noteq> []" "''api_key'' \<notin> set (map fst d)"
  then have "map_of d ''api_key'' = None" by (simp add: map_of_eq_None_iff)
  then show ?thesis using a by (simp add: initialize_clients_def dict_pop_def)
qed

lemma initialize_clients_environment:
  "openai_installed E \<Longrightarrow> cfg = None \<or> cfg = Some [] \<Longrightarrow>
   snd (initialize_clients E cfg ikw tr) = tr @ [Getenv ''OPENAI_API_KEY'']"
  by (auto simp: initialize_clients_def split: sum.splits option.splits)

text \<open>
  Claim C9. With the \<open>openai\<close> library installed, \<open>_initialize_clients\<close> raises
  \<open>KeyError\<close> for every non-empty \<open>api_config\<close> that has no key \<open>api_key\<close>, and so does the
  constructor once the base class has accepted the \<open>dtype\<close>; no environment variable is
  read. A non-empty \<open>api_config\<close> never leads to a read of the environment, with or
  without the key: \<open>OPENAI_API_KEY\<close> is read exactly when \<open>api_config\<close> is \<open>None\<close> or
  empty.
\<close>

theorem api_config_without_api_key_raises_KeyError:
  "(openai_installed E \<and> d \<noteq> [] \<and> ''api_key'' \<notin> set (map fst d) \<longrightarrow>
      initialize_clients E (Some d) ikw tr = (Inl (KeyError ''api_key''), tr))
   \<and> (valid_dtype E dty \<and> openai_installed E \<and> d \<noteq> [] \<and> ''api_key'' \<notin> set (map fst d) \<longrightarrow>
      init E mdl (Some d) dty ikw tr = (Inl (KeyError ''api_key''), tr))
   \<and> (d \<noteq> [] \<longrightarrow> snd (initialize_clients E (Some d) ikw tr) = tr)
   \<and> (openai_installed E \<and> (cfg = None \<or> cfg = Some []) \<longrightarrow>
      snd (initialize_clients E cfg ikw tr) = tr @ [Getenv ''OPENAI_API_KEY''])
   \<and> (snd (initialize_clients E cfg ikw tr) \<noteq> tr \<longrightarrow> cfg = None \<or> cfg = Some [])"
proof (intro conjI impI)
  assume "openai_installed E \<and> d \<noteq> [] \<and> ''api_key'' \<notin> set (map fst d)"
  then show "initialize_clients E (Some d) ikw tr = (Inl (KeyError ''api_key''), tr)"
    by (simp add: initialize_clients_no_key)
next
  assume "valid_dtype E dty \<and> openai_installed E \<and> d \<noteq> [] \<and> ''api_key'' \<notin> set (map fst d)"
  then show "init E mdl (Some d) dty ikw tr = (Inl (KeyError ''api_key''), tr)"
    by (simp add: init_def initialize_clients_no_key)
next
  assume "d \<noteq> []"
  then show "snd (initialize_clients E (Some d) ikw tr) = tr"
    by (rule initialize_clients_config)
next
  assume "openai_installed E \<and> (cfg = None \<or> cfg = Some [])"
  then show "snd (initialize_clients E cfg ikw tr) = tr @ [Getenv ''OPENAI_API_KEY'']"
    by (simp add: initialize_clients_environment)
next
  assume changed: "snd (initialize_clients E cfg ikw tr) \<noteq> tr"
  show "cfg = None \<or> cfg = Some []"
  proof (cases cfg)
    case None
    then show ?thesis by simp
  next
    case (Some d)
    then show ?thesis using changed initialize_clients_config [of d E ikw tr] by (cases "d = []") auto
  qed
qed

theorem api_config_without_api_key_raises_KeyError_witness:
  "initialize_clients example_env (Some [(''organization'', PStr ''org-1'')]) [] []
     = (Inl (KeyError ''api_key''), [])
   \<and> init example_env ''text-embedding-ada-002'' (Some [(''organization'', PStr ''org-1'')])
       ''float32'' [] []
     = (Inl (KeyError ''api_key''), [])
   \<and> snd (initialize_clients example_env (Some [(''api_key'', PStr ''sk-1'')]) [] []) = []
   \<and> snd (initialize_clients example_env None [] []) = [Getenv ''OPENAI_API_KEY'']
   \<and> snd (initialize_clients example_env (Some []) [] []) = [Getenv ''OPENAI_API_KEY'']"
proof -
  have e: "openai_installed example_env" "valid_dtype example_env ''float32''"
    by (simp_all add: example_env_def)
  have k: "[(''organization'', PStr ''org-1'')] \<noteq> []"
    "''api_key'' \<notin> set (map fst [(''organization'', PStr ''org-1'')])"
    "[(''api_key'', PStr ''sk-1'')] \<noteq> []" by simp_all
  note a = api_config_without_api_key_raises_KeyError
    [of example_env "[(''organization'', PStr ''org-1'')]" "[]" "[]" "''float32''"
      "''text-embedding-ada-002''" None]
  note b = api_config_without_api_key_raises_KeyError
    [of example_env "[(''api_key'', PStr ''sk-1'')]" "[]" "[]" "''float32''"
      "''text-embedding-ada-002''" "Some []"]
  show ?thesis using a b e k by simp
qed

section \<open>A failed probe\<close>

text \<open>
  Claim C10. When the probe of \<open>_set_model_dims\<close> raises, whatever the exception,
  \<open>_set_model_dims\<close> raises a \<open>ValueError\<close> in its place, and so does the constructor that
  reached the probe: a \<open>KeyError\<close> or \<open>IndexError\<close> becomes the \<open>ValueError\<close> of an
  unexpected response, any other exception the \<open>ValueError\<close> of the fall-back handler.
\<close>

theorem failed_probe_raises_ValueError:
  "(fst (embed E (PStr ''dimension check'') None False [] w) = Inl e \<longrightarrow>
      set_model_dims E w
        = (Inl (ValueError (if isinstance_KeyError_IndexError e
                            then ''Unexpected response from the OpenAI API''
                            else ''Error setting embedding model dimensions'')),
           snd (embed E (PStr ''dimension check'') None False [] w)))
   \<and> (valid_dtype E dty \<and> initialize_clients E cfg ikw tr = (Inr (c, ac), tr')
       \<and> fst (embed E (PStr ''dimension check'') None False []
               \<lparr>self = \<lparr>model = mdl, dtype = dty, dims = None, client = c, aclient = ac\<rparr>,
                trace = tr'\<rparr>) = Inl e \<longrightarrow>
      (\<exists>m. fst (init E mdl cfg dty ikw tr) = Inl (ValueError m)))
   \<and> ((\<exists>n. fst (set_model_dims E w) = Inr n) \<or> (\<exists>m. fst (set_model_dims E w) = Inl (ValueError m)))"
proof (intro conjI impI)
  assume "fst (embed E (PStr ''dimension check'') None False [] w) = Inl e"
  then show "set_model_dims E w
        = (Inl (ValueError (if isinstance_KeyError_IndexError e
                            then ''Unexpected response from the OpenAI API''
                            else ''Error setting embedding model dimensions'')),
           snd (embed E (PStr ''dimension check'') None False [] w))"
    by (cases "embed E (PStr ''dimension check'') None False [] w")
       (simp add: set_model_dims_def)
next
  let ?w0 = "\<lparr>self = \<lparr>model = mdl, dtype = dty, dims = None, client = c, aclient = ac\<rparr>, trace = tr'\<rparr>"
  assume a: "valid_dtype E dty \<and> initialize_clients E cfg ikw tr = (Inr (c, ac), tr')
       \<and> fst (embed E (PStr ''dimension check'') None False [] ?w0) = Inl e"
  then have "\<exists>m. fst (set_model_dims E ?w0) = Inl (ValueError m)"
    by (cases "embed E (PStr ''dimension check'') None False [] ?w0")
       (simp add: set_model_dims_def)
  then show "\<exists>m. fst (init E mdl cfg dty ikw tr) = Inl (ValueError m)"
    using a by (cases "set_model_dims E ?w0") (auto simp: init_def)
next
  show "(\<exists>n. fst (set_model_dims E w) = Inr n) \<or> (\<exists>m. fst (set_model_dims E w) = Inl (ValueError m))"
    by (cases "embed E (PStr ''dimension check'') None False [] w")
       (auto simp: set_model_dims_def split: sum.splits)
qed

lemma failing_probe:
  assumes "client (self w) = failing_endpoint"
  shows "fst (embed E (PStr ''dimension check'') None False [] w) = Inl (RetryError (OtherError 503))"
proof -
  have "embed_fn E (PStr ''dimension check'') None False [] w1
      = (Inl (OtherError 503), w1\<lparr>trace := trace w1 @
           [Remote \<lparr>input = [PStr ''dimension check''], model_arg = model (self w1), extra = []\<rparr>]\<rparr>)"
    if "client (self w1) = failing_endpoint" for w1
    using that by (simp add: embed_fn_def create_def dict_pop_default_def failing_endpoint_def)
  then show ?thesis using assms
    by (simp add: embed_def retry_def deprecated_argument_def retrying.simps
        stop_after_attempt_def retry_if_not_exception_type_TypeError_def)
qed

theorem failed_probe_raises_ValueError_witness:
  "fst (embed failing_env (PStr ''dimension check'') None False [] failing_world)
     = Inl (RetryError (OtherError 503))
   \<and> fst (set_model_dims failing_env failing_world)
     = Inl (ValueError ''Error setting embedding model dimensions'')
   \<and> initialize_clients failing_env None [] []
     = (Inr (failing_endpoint, failing_endpoint), [Getenv ''OPENAI_API_KEY''])
   \<and> (\<exists>m. fst (init failing_env ''text-embedding-ada-002'' None ''float32'' [] [])
          = Inl (ValueError m))"
proof -
  let ?w0 = "\<lparr>self = \<lparr>model = ''text-embedding-ada-002'', dtype = ''float32'', dims = None,
      client = failing_endpoint, aclient = failing_endpoint\<rparr>, trace = [Getenv ''OPENAI_API_KEY'']\<rparr>"
  have p1: "fst (embed failing_env (PStr ''dimension check'') None False [] failing_world)
     = Inl (RetryError (OtherError 503))"
    by (rule failing_probe) (simp add: failing_world_def)
  have p2: "fst (embed failing_env (PStr ''dimension check'') None False [] ?w0)
     = Inl (RetryError (OtherError 503))"
    by (rule failing_probe) simp
  have vd: "valid_dtype failing_env ''float32''"
    by (simp add: failing_env_def example_env_def)
  have ic: "initialize_clients failing_env None [] []
     = (Inr (failing_endpoint, failing_endpoint), [Getenv ''OPENAI_API_KEY''])"
    by (simp add: initialize_clients_def failing_env_def example_env_def call_client_def)
  note th = failed_probe_raises_ValueError
    [of failing_env failing_world "RetryError (OtherError 503)" "''float32''" None "[]" "[]"
      failing_endpoint failing_endpoint "[Getenv ''OPENAI_API_KEY'']" "''text-embedding-ada-002''"]
  from th p1 have d: "fst (set_model_dims failing_env failing_world)
     = Inl (ValueError ''Error setting embedding model dimensions'')" by simp
  from th vd ic p2 have i: "\<exists>m. fst (init failing_env ''text-embedding-ada-002'' None ''float32'' [] [])
          = Inl (ValueError m)" by blast
  from p1 d ic i show ?thesis by blast
qed

end
